theory Spec2Isabelle
  imports Main "HOL-Library.Word" "HOL-Library.Sublist" "HOL-Library.AList"
begin

unbundle bit_operations_syntax

section \<open>Data model (app/models/character.py)\<close>

text \<open>
  A UUID is its 128-bit integer. \<open>uuid_str\<close> is Python's \<open>UUID.__str__\<close>: the 32
  lowercase hexadecimal digits of the integer, grouped 8-4-4-4-12. A \<open>datetime\<close> is a
  count of microseconds, the resolution of Python's \<open>datetime\<close>.
\<close>

type_synonym uuid = "128 word"
type_synonym datetime = nat
type_synonym bytes = "8 word list"

definition hex_digit :: "nat \<Rightarrow> char" where
  "hex_digit n = ''0123456789abcdef'' ! n"

definition uuid_hex :: "uuid \<Rightarrow> string" where
  "uuid_hex u = map (\<lambda>i. hex_digit (unat (drop_bit (4 * (31 - i)) u AND 15))) [0..<32]"

definition uuid_str :: "uuid \<Rightarrow> string" where
  "uuid_str u =
     (let h = uuid_hex u in
      take 8 h @ ''-'' @ take 4 (drop 8 h) @ ''-'' @ take 4 (drop 12 h) @ ''-'' @
      take 4 (drop 16 h) @ ''-'' @ drop 20 h)"

record image_variation =
  image_path :: string
  pose :: "string option"
  expression :: "string option"
  setting :: "string option"
  generated_at :: datetime

text \<open>
  \<open>CharacterBase\<close> carries \<open>description\<close> and \<open>name\<close>; \<open>CharacterCreate\<close> adds
  nothing to it; \<open>Character\<close> extends it. The field \<open>id\<close> is \<open>char_id\<close> here.
\<close>

record character_base =
  description :: string
  name :: "string option"

record character = character_base +
  char_id :: uuid
  created_at :: datetime
  updated_at :: datetime
  base_image_path :: "string option"
  image_seed :: "int option"
  variations :: "image_variation list"

section \<open>Exceptions\<close>

datatype exn =
    HTTPException nat string
  | TypeError string
  | UnboundLocalError
  | IndexError
  | AttributeError
  | OSError
  | HTTPStatusError nat
  | RequestError
  | UnicodeDecodeError
  | RecursionError
  | OtherError string

section \<open>Prompt synthesis (app/services/image_generator.py, create_prompt)\<close>

text \<open>
  \<open>variation_params\<close> is an optional dict from attribute names to strings, kept as an
  association list in insertion order. A dict is true when it is not empty; \<open>d.get(k)\<close>
  is true when the key is there with a non-empty string.
\<close>

type_synonym params = "(string \<times> string) list"

definition truthy_params :: "params option \<Rightarrow> bool" where
  "truthy_params variation_params =
     (case variation_params of None \<Rightarrow> False | Some d \<Rightarrow> d \<noteq> [])"

definition get_truthy :: "params \<Rightarrow> string \<Rightarrow> string option" where
  "get_truthy d k =
     (case map_of d k of None \<Rightarrow> None | Some v \<Rightarrow> if v = [] then None else Some v)"

definition prompt_intro :: string where
  "prompt_intro =
     ''I NEED to test how the tool works with extremely simple prompts. DO NOT add any detail, just use it AS-IS: Character ID ''
     @ [CHR 0x27]"

definition prompt_middle :: string where
  "prompt_middle = [CHR 0x27] @ '' - Create a portrait of this specific character: ''"

definition prompt_closing :: string where
  "prompt_closing =
     ''. IMPORTANT: This MUST be exactly the same character as previous images with the same Character ID. Maintain perfect consistency in the character's core features including face, body type, hair style, clothing style, and all distinctive characteristics. Use identical art style to previous generations.''"

definition append_attribute :: "params \<Rightarrow> string \<Rightarrow> string \<Rightarrow> string \<Rightarrow> string" where
  "append_attribute d k label base_prompt =
     (case get_truthy d k of
        None \<Rightarrow> base_prompt
      | Some v \<Rightarrow> base_prompt @ label @ v)"

definition create_prompt :: "character \<Rightarrow> params option \<Rightarrow> string" where
  "create_prompt character variation_params =
     (let character_id_short = take 8 (uuid_str (char_id character));
          base_prompt = prompt_intro @ character_id_short @ prompt_middle @ description character;
          base_prompt =
            (case variation_params of
               None \<Rightarrow> base_prompt
             | Some d \<Rightarrow>
                 if d = [] then base_prompt
                 else append_attribute d ''setting'' ''. Setting: ''
                        (append_attribute d ''expression'' ''. Expression: ''
                          (append_attribute d ''pose'' ''. Pose: '' base_prompt)))
      in base_prompt @ prompt_closing)"

section \<open>The world the program runs in\<close>

text \<open>
  The storage file \<open>characters_db.json\<close> is kept as \<open>open\<close>, \<open>json.load\<close>, \<open>UUID\<close>
  and \<open>Character.model_validate\<close> see it. It is missing; or it cannot be opened or read
  (\<open>IOError\<close>); or \<open>json.load\<close> raises on its content, which is \<open>JSONDecodeError\<close> for
  text that is not JSON (\<open>Undecodable\<close>), \<open>UnicodeDecodeError\<close> for bytes that are not
  UTF-8 (\<open>NotText\<close>) and \<open>RecursionError\<close> for JSON nested too deep (\<open>TooDeep\<close>); or
  it is JSON whose top-level value is not an object, so that \<open>data.items()\<close> raises
  \<open>AttributeError\<close>; or it is an object, each of whose items either has a key that
  \<open>UUID\<close> accepts and a value that validates as a character, or makes one of the two
  raise. Two items may carry the same UUID (spelled differently).
  What \<open>write_storage\<close> writes is read back as the records written: the round trip of
  \<open>model_dump(mode='json')\<close>, \<open>json.dump\<close>, \<open>json.load\<close> and \<open>model_validate\<close> belongs
  to the libraries.
\<close>

datatype stored_entry = Entry uuid character | Corrupt

datatype storage_file =
    Missing
  | Unreadable
  | Undecodable
  | NotText
  | TooDeep
  | NotAnObject
  | Decoded "stored_entry list"

text \<open>
  Opening a file for writing can fail before anything is written, or the write can fail
  after the file was truncated, with some bytes already written.
\<close>

datatype write_outcome = Written | OpenFailed | WriteInterrupted nat

datatype rmtree_outcome = Removed | RemoveFailed "(string \<times> bytes) list"

record image_item =
  item_url :: "string option"
  item_seed :: "int option"

datatype backend_reply = Returns "image_item list" | Raises exn

datatype fetch_reply = Content bytes | FetchRaises exn

text \<open>
  Everything the program asks of its surroundings. \<open>backend\<close> is
  \<open>client.images.generate\<close> at a prompt, with the \<open>seed\<close> keyword or without it
  (model, size, quality and \<open>n\<close> are constants of the source); \<open>http_get\<close> is the
  download with \<open>raise_for_status\<close>; \<open>clock\<close> gives the successive readings of
  \<open>datetime.now()\<close>; \<open>randint\<close> is the value of \<open>random.randint(1, 2147483647)\<close> and
  \<open>uuid4\<close> that of \<open>uuid4()\<close>.
\<close>

record env =
  backend :: "string \<Rightarrow> int option \<Rightarrow> backend_reply"
  http_get :: "string \<Rightarrow> fetch_reply"
  clock :: "nat \<Rightarrow> datetime"
  strftime :: "datetime \<Rightarrow> string"
  randint :: int
  uuid4 :: uuid
  makedirs_ok :: bool
  image_write :: write_outcome
  storage_write :: write_outcome
  rmtree :: rmtree_outcome

text \<open>
  The state: the storage file, the image directory of each character (absent, or its
  files by name below the directory), the number of clock readings taken, and two
  logs that record every backend request (prompt and seed) and every download.
\<close>

record world =
  storage :: storage_file
  images :: "uuid \<Rightarrow> (string \<times> bytes) list option"
  ticks :: nat
  requests :: "(string \<times> int option) list"
  downloads :: "string list"

definition now :: "env \<Rightarrow> world \<Rightarrow> datetime \<times> world" where
  "now e w = (clock e (ticks w), w\<lparr>ticks := Suc (ticks w)\<rparr>)"

section \<open>Record store (app/db/file_storage.py)\<close>

type_synonym characters = "(uuid \<times> character) list"

fun load_entries :: "stored_entry list \<Rightarrow> characters \<Rightarrow> characters" where
  "load_entries [] characters = characters"
| "load_entries (Entry k v # data) characters = load_entries data (AList.update k v characters)"
| "load_entries (Corrupt # data) characters = load_entries data characters"

text \<open>
  \<open>_read_storage\<close> returns the empty dict for a missing file and for what its handler
  catches, \<open>json.JSONDecodeError\<close> and \<open>IOError\<close>; every other exception leaves the
  function. An item that does not parse is skipped.
\<close>

definition read_storage :: "storage_file \<Rightarrow> exn + characters" where
  "read_storage f =
     (case f of
        Missing \<Rightarrow> Inr []
      | Unreadable \<Rightarrow> Inr []
      | Undecodable \<Rightarrow> Inr []
      | NotText \<Rightarrow> Inl UnicodeDecodeError
      | TooDeep \<Rightarrow> Inl RecursionError
      | NotAnObject \<Rightarrow> Inl AttributeError
      | Decoded data \<Rightarrow> Inr (load_entries data []))"

definition write_storage :: "env \<Rightarrow> characters \<Rightarrow> world \<Rightarrow> (exn + unit) \<times> world" where
  "write_storage e characters w =
     (case storage_write e of
        Written \<Rightarrow> (Inr (), w\<lparr>storage := Decoded (map (\<lambda>(k, v). Entry k v) characters)\<rparr>)
      | OpenFailed \<Rightarrow> (Inl (HTTPException 500 ''Failed to save character data.''), w)
      | WriteInterrupted n \<Rightarrow>
          (Inl (HTTPException 500 ''Failed to save character data.''), w\<lparr>storage := Undecodable\<rparr>))"

text \<open>
  \<open>created_at\<close> is a \<open>datetime\<close>, which is never false in Python, so the assignment
  under \<open>if not character.created_at\<close> does not run.
\<close>

definition save_character :: "env \<Rightarrow> character \<Rightarrow> world \<Rightarrow> (exn + character) \<times> world" where
  "save_character e character w =
     (case read_storage (storage w) of
        Inl x \<Rightarrow> (Inl x, w)
      | Inr characters \<Rightarrow>
          (let (t, w1) = now e w;
               character = character\<lparr>updated_at := t\<rparr>;
               characters = AList.update (char_id character) character characters
           in case write_storage e characters w1 of
                (Inl x, w2) \<Rightarrow> (Inl x, w2)
              | (Inr _, w2) \<Rightarrow> (Inr character, w2)))"

definition get_character :: "uuid \<Rightarrow> world \<Rightarrow> exn + character option" where
  "get_character character_id w =
     (case read_storage (storage w) of
        Inl x \<Rightarrow> Inl x
      | Inr characters \<Rightarrow> Inr (map_of characters character_id))"

text \<open>
  \<open>sorted(..., reverse=True)\<close> is stable: it reverses, sorts stably and reverses.
\<close>

definition get_all_characters :: "world \<Rightarrow> exn + character list" where
  "get_all_characters w =
     (case read_storage (storage w) of
        Inl x \<Rightarrow> Inl x
      | Inr characters \<Rightarrow> Inr (rev (sort_key created_at (rev (map snd characters)))))"

definition update_character ::
  "env \<Rightarrow> character \<Rightarrow> world \<Rightarrow> (exn + character option) \<times> world" where
  "update_character e character w =
     (case read_storage (storage w) of
        Inl x \<Rightarrow> (Inl x, w)
      | Inr characters \<Rightarrow>
          if map_of characters (char_id character) = None then (Inr None, w)
          else
            (let (t, w1) = now e w;
                 character = character\<lparr>updated_at := t\<rparr>;
                 characters = AList.update (char_id character) character characters
             in case write_storage e characters w1 of
                  (Inl x, w2) \<Rightarrow> (Inl x, w2)
                | (Inr _, w2) \<Rightarrow> (Inr (Some character), w2)))"

definition remove_image_directory :: "env \<Rightarrow> uuid \<Rightarrow> world \<Rightarrow> world" where
  "remove_image_directory e character_id w =
     (case images w character_id of
        None \<Rightarrow> w
      | Some files \<Rightarrow>
          (case rmtree e of
             Removed \<Rightarrow> w\<lparr>images := (images w)(character_id := None)\<rparr>
           | RemoveFailed left \<Rightarrow> w\<lparr>images := (images w)(character_id := Some left)\<rparr>))"

definition delete_character :: "env \<Rightarrow> uuid \<Rightarrow> world \<Rightarrow> (exn + bool) \<times> world" where
  "delete_character e character_id w =
     (case read_storage (storage w) of
        Inl x \<Rightarrow> (Inl x, w)
      | Inr characters \<Rightarrow>
          if map_of characters character_id = None then (Inr False, w)
          else
            (let w1 = remove_image_directory e character_id w;
                 characters = AList.delete character_id characters
             in case write_storage e characters w1 of
                  (Inl x, w2) \<Rightarrow> (Inl x, w2)
                | (Inr _, w2) \<Rightarrow> (Inr True, w2)))"

section \<open>Image generation (app/services/image_generator.py, generate_character_image)\<close>

text \<open>Python's \<open>sub in s\<close> on strings, and \<open>str\<close> of a non-negative integer.\<close>

fun str_contains :: "string \<Rightarrow> string \<Rightarrow> bool" where
  "str_contains [] sub = (sub = [])"
| "str_contains (c # cs) sub = (prefix sub (c # cs) \<or> str_contains cs sub)"

fun str_nat :: "nat \<Rightarrow> string" where
  "str_nat n = (if n < 10 then [hex_digit n] else str_nat (n div 10) @ [hex_digit (n mod 10)])"

declare str_nat.simps [simp del]

definition seed_unsupported :: string where
  "seed_unsupported = ''unexpected keyword argument '' @ [CHR 0x27] @ ''seed'' @ [CHR 0x27]"

definition generation_failed :: exn where
  "generation_failed =
     HTTPException 500 ''Image generation failed. Check server logs for details.''"

text \<open>
  The settings, at their defaults, and the two path functions on the paths the program
  builds (relative, below the static directory, separator \<open>/\<close>).
\<close>

definition STATIC_FILES_DIR :: string where
  "STATIC_FILES_DIR = ''static''"

definition path_join :: "string \<Rightarrow> string \<Rightarrow> string" where
  "path_join a b = a @ ''/'' @ b"

definition IMAGE_STORAGE_PATH :: string where
  "IMAGE_STORAGE_PATH = path_join STATIC_FILES_DIR ''images''"

definition relpath :: "string \<Rightarrow> string \<Rightarrow> string" where
  "relpath p start = drop (length start + 1) p"

text \<open>
  The seed to use. The local variable \<open>seed\<close> is assigned in two of the three cases;
  \<open>None\<close> is the variable left unbound. The base case also stores the seed in the
  character.
\<close>

definition choose_seed :: "env \<Rightarrow> character \<Rightarrow> params option \<Rightarrow> int option \<times> character" where
  "choose_seed e character variation_params =
     (if truthy_params variation_params \<and> image_seed character \<noteq> None then
        (image_seed character, character)
      else if \<not> truthy_params variation_params then
        (Some (randint e), character\<lparr>image_seed := Some (randint e)\<rparr>)
      else (None, character))"

text \<open>
  The backend call: with the seed first; a \<open>TypeError\<close> whose message contains
  \<open>seed_unsupported\<close> is answered by one call without the seed; anything else raised
  goes on to the caller. Reading the unbound \<open>seed\<close> raises before any call.
\<close>

definition request_image ::
  "env \<Rightarrow> string \<Rightarrow> int option \<Rightarrow> world \<Rightarrow> (exn + image_item list) \<times> world" where
  "request_image e prompt seed w =
     (case seed of
        None \<Rightarrow> (Inl UnboundLocalError, w)
      | Some s \<Rightarrow>
          (let w1 = w\<lparr>requests := requests w @ [(prompt, Some s)]\<rparr> in
           case backend e prompt (Some s) of
             Returns response \<Rightarrow> (Inr response, w1)
           | Raises (TypeError msg) \<Rightarrow>
               if str_contains msg seed_unsupported then
                 (let w2 = w1\<lparr>requests := requests w1 @ [(prompt, None)]\<rparr> in
                  case backend e prompt None of
                    Returns response \<Rightarrow> (Inr response, w2)
                  | Raises x \<Rightarrow> (Inl x, w2))
               else (Inl (TypeError msg), w1)
           | Raises x \<Rightarrow> (Inl x, w1)))"

text \<open>
  \<open>response.data[0].url\<close>, the seed of the response taken over when it carries one,
  and the check that the URL is there.
\<close>

definition read_response :: "image_item list \<Rightarrow> character \<Rightarrow> (exn + string) \<times> character" where
  "read_response response character =
     (case response of
        [] \<Rightarrow> (Inl IndexError, character)
      | item # _ \<Rightarrow>
          (let character =
                 (case item_seed item of
                    None \<Rightarrow> character
                  | Some s \<Rightarrow> character\<lparr>image_seed := Some s\<rparr>)
           in case item_url item of
                None \<Rightarrow> (Inl (HTTPException 500 ''OpenAI did not return an image URL.''), character)
              | Some image_url \<Rightarrow>
                  if image_url = [] then
                    (Inl (HTTPException 500 ''OpenAI did not return an image URL.''), character)
                  else (Inr image_url, character)))"

definition download :: "env \<Rightarrow> string \<Rightarrow> world \<Rightarrow> (exn + bytes) \<times> world" where
  "download e image_url w =
     (let w1 = w\<lparr>downloads := downloads w @ [image_url]\<rparr> in
      case http_get e image_url of
        Content image_data \<Rightarrow> (Inr image_data, w1)
      | FetchRaises (HTTPStatusError code) \<Rightarrow>
          (Inl (HTTPException 500 (''Failed to download image from OpenAI: Status '' @ str_nat code)), w1)
      | FetchRaises RequestError \<Rightarrow>
          (Inl (HTTPException 500 ''Failed to download image from OpenAI: Request Error''), w1)
      | FetchRaises x \<Rightarrow> (Inl x, w1))"

text \<open>
  The file is written below the character's directory, a variation below its
  \<open>variations\<close> subdirectory. \<open>makedirs\<close> creates the directory when it is not there.
\<close>

definition write_image ::
  "env \<Rightarrow> character \<Rightarrow> params option \<Rightarrow> bytes \<Rightarrow> world \<Rightarrow> (exn + string) \<times> world" where
  "write_image e character variation_params image_data w =
     (let (t, w1) = now e w;
          timestamp = strftime e t;
          file_name = uuid_str (char_id character) @ ''_'' @ timestamp @ ''.png'';
          character_dir = path_join IMAGE_STORAGE_PATH (uuid_str (char_id character));
          folder_path =
            (if truthy_params variation_params then path_join character_dir ''variations''
             else character_dir);
          local_name =
            (if truthy_params variation_params then path_join ''variations'' file_name
             else file_name)
      in if \<not> makedirs_ok e then (Inl OSError, w1)
         else
           (let files = (case images w1 (char_id character) of None \<Rightarrow> [] | Some fs \<Rightarrow> fs);
                w2 = w1\<lparr>images := (images w1)(char_id character := Some files)\<rparr>;
                file_path = path_join folder_path file_name
            in case image_write e of
                 OpenFailed \<Rightarrow> (Inl (HTTPException 500 ''Failed to save image file.''), w2)
               | WriteInterrupted n \<Rightarrow>
                   (Inl (HTTPException 500 ''Failed to save image file.''),
                    w2\<lparr>images := (images w2)(char_id character :=
                          Some (AList.update local_name (take n image_data) files))\<rparr>)
               | Written \<Rightarrow>
                   (Inr (relpath file_path STATIC_FILES_DIR),
                    w2\<lparr>images := (images w2)(char_id character :=
                          Some (AList.update local_name image_data files))\<rparr>)))"

text \<open>What follows a response of the backend: the URL, the download, the file.\<close>

definition process_response ::
  "env \<Rightarrow> character \<Rightarrow> params option \<Rightarrow> image_item list \<Rightarrow> world \<Rightarrow>
     (exn + string) \<times> character \<times> world" where
  "process_response e character variation_params response w1 =
     (case read_response response character of
        (Inl x, character) \<Rightarrow> (Inl x, character, w1)
      | (Inr image_url, character) \<Rightarrow>
          (case download e image_url w1 of
             (Inl x, w2) \<Rightarrow> (Inl x, character, w2)
           | (Inr image_data, w2) \<Rightarrow>
               (case write_image e character variation_params image_data w2 of
                  (Inl x, w3) \<Rightarrow> (Inl x, character, w3)
                | (Inr relative_path, w3) \<Rightarrow> (Inr relative_path, character, w3))))"

text \<open>The body of the outer \<open>try\<close>, and the function: whatever is raised inside
  becomes the same HTTP 500.\<close>

definition generate_steps ::
  "env \<Rightarrow> character \<Rightarrow> params option \<Rightarrow> world \<Rightarrow> (exn + string) \<times> character \<times> world" where
  "generate_steps e character variation_params w =
     (let prompt = create_prompt character variation_params;
          (seed, character) = choose_seed e character variation_params
      in case request_image e prompt seed w of
           (Inl x, w1) \<Rightarrow> (Inl x, character, w1)
         | (Inr response, w1) \<Rightarrow> process_response e character variation_params response w1)"

definition generate_character_image ::
  "env \<Rightarrow> character \<Rightarrow> params option \<Rightarrow> world \<Rightarrow> (exn + string) \<times> character \<times> world" where
  "generate_character_image e character variation_params w =
     (case generate_steps e character variation_params w of
        (Inl x, character, w1) \<Rightarrow> (Inl generation_failed, character, w1)
      | (Inr relative_path, character, w1) \<Rightarrow> (Inr relative_path, character, w1))"

section \<open>Endpoints (app/api/endpoints/characters.py)\<close>

text \<open>\<open>Character(**character_data.model_dump())\<close>: the defaults of the model fill the
  other fields, the two timestamps from two readings of the clock.\<close>

definition new_character :: "env \<Rightarrow> character_base \<Rightarrow> world \<Rightarrow> character \<times> world" where
  "new_character e character_data w =
     (let (t1, w1) = now e w;
          (t2, w2) = now e w1
      in (\<lparr>description = description character_data, name = name character_data,
           char_id = uuid4 e, created_at = t1, updated_at = t2, base_image_path = None,
           image_seed = None, variations = []\<rparr>, w2))"

definition create_character :: "env \<Rightarrow> character_base \<Rightarrow> world \<Rightarrow> (exn + character) \<times> world" where
  "create_character e character_data w =
     (let (character, w1) = new_character e character_data w in
      case generate_character_image e character None w1 of
        (Inl x, character, w2) \<Rightarrow> (Inl x, w2)
      | (Inr path, character, w2) \<Rightarrow>
          if path = [] then
            (Inl (HTTPException 500 ''Failed to generate base image.''), w2)
          else save_character e (character\<lparr>base_image_path := Some path\<rparr>) w2)"

definition read_character_by_id :: "uuid \<Rightarrow> world \<Rightarrow> exn + character" where
  "read_character_by_id character_id w =
     (case get_character character_id w of
        Inl x \<Rightarrow> Inl x
      | Inr None \<Rightarrow> Inl (HTTPException 404 ''Character not found'')
      | Inr (Some character) \<Rightarrow> Inr character)"

definition active_variation_params ::
  "string option \<Rightarrow> string option \<Rightarrow> string option \<Rightarrow> params" where
  "active_variation_params pose' expression' setting' =
     concat (map (\<lambda>(k, v). case v of None \<Rightarrow> [] | Some s \<Rightarrow> [(k, s)])
       [(''pose'', pose'), (''expression'', expression'), (''setting'', setting')])"

definition create_character_variation ::
  "env \<Rightarrow> uuid \<Rightarrow> string option \<Rightarrow> string option \<Rightarrow> string option \<Rightarrow> world \<Rightarrow>
     (exn + character) \<times> world" where
  "create_character_variation e character_id pose' expression' setting' w =
     (case get_character character_id w of
        Inl x \<Rightarrow> (Inl x, w)
      | Inr None \<Rightarrow> (Inl (HTTPException 404 ''Character not found''), w)
      | Inr (Some character) \<Rightarrow>
          (let active = active_variation_params pose' expression' setting' in
           if active = [] then
             (Inl (HTTPException 400
                ''At least one variation parameter (pose, expression, setting) must be provided''), w)
           else
             (case generate_character_image e character (Some active) w of
                (Inl x, character, w1) \<Rightarrow> (Inl x, w1)
              | (Inr path, character, w1) \<Rightarrow>
                  if path = [] then
                    (Inl (HTTPException 500 ''Failed to generate variation image.''), w1)
                  else
                    (let (t, w2) = now e w1;
                         variation = \<lparr>image_path = path, pose = map_of active ''pose'',
                           expression = map_of active ''expression'',
                           setting = map_of active ''setting'', generated_at = t\<rparr>;
                         character = character\<lparr>variations := variations character @ [variation]\<rparr>
                     in case update_character e character w2 of
                          (Inl x, w3) \<Rightarrow> (Inl x, w3)
                        | (Inr None, w3) \<Rightarrow>
                            (Inl (HTTPException 404 ''Character not found during update process.''), w3)
                        | (Inr (Some updated_character), w3) \<Rightarrow> (Inr updated_character, w3)))))"

definition remove_character :: "env \<Rightarrow> uuid \<Rightarrow> world \<Rightarrow> (exn + unit) \<times> world" where
  "remove_character e character_id w =
     (case delete_character e character_id w of
        (Inl x, w1) \<Rightarrow> (Inl x, w1)
      | (Inr deleted, w1) \<Rightarrow>
          if \<not> deleted then (Inl (HTTPException 404 ''Character not found''), w1)
          else (Inr (), w1))"

section \<open>Notions of the specification\<close>

text \<open>
  The text a variation attribute contributes to the prompt, in the words of the
  specification: nothing when there are no variation attributes or the attribute is
  absent or empty, otherwise its label followed by its value.
\<close>

definition attribute_text :: "params option \<Rightarrow> string \<Rightarrow> string \<Rightarrow> string" where
  "attribute_text variation_params k label =
     (case variation_params of
        None \<Rightarrow> []
      | Some d \<Rightarrow>
          (case map_of d k of
             None \<Rightarrow> []
           | Some v \<Rightarrow> if v = [] then [] else label @ v))"

text \<open>
  A reply rejects the seed parameter as unsupported when it is the \<open>TypeError\<close> whose
  message says so; \<open>reply_result\<close> is what a reply gives the caller.
\<close>

definition seed_rejected :: "backend_reply \<Rightarrow> bool" where
  "seed_rejected r =
     (case r of Raises (TypeError msg) \<Rightarrow> str_contains msg seed_unsupported | _ \<Rightarrow> False)"

definition reply_result :: "backend_reply \<Rightarrow> exn + image_item list" where
  "reply_result r = (case r of Returns response \<Rightarrow> Inr response | Raises x \<Rightarrow> Inl x)"

text \<open>
  The seed a character carries after a generation that asked for seed \<open>s\<close>: the seed of
  the backend's response when it carries one, else \<open>s\<close>.
\<close>

definition seed_after :: "env \<Rightarrow> string \<Rightarrow> int \<Rightarrow> world \<Rightarrow> int option" where
  "seed_after e p s w =
     (case fst (request_image e p (Some s) w) of
        Inr (item # _) \<Rightarrow> (case item_seed item of None \<Rightarrow> Some s | Some s' \<Rightarrow> Some s')
      | _ \<Rightarrow> Some s)"

text \<open>What the store holds for an identity: its seed, and the attributes of its variations.\<close>

definition stored_seed :: "uuid \<Rightarrow> world \<Rightarrow> int option" where
  "stored_seed character_id w =
     (case get_character character_id w of
        Inr (Some character) \<Rightarrow> image_seed character
      | _ \<Rightarrow> None)"

definition stored_variations ::
  "uuid \<Rightarrow> world \<Rightarrow> (string option \<times> string option \<times> string option) list" where
  "stored_variations character_id w =
     (case get_character character_id w of
        Inr (Some character) \<Rightarrow>
          map (\<lambda>v. (pose v, expression v, setting v)) (variations character)
      | _ \<Rightarrow> [])"

definition no_attribute :: exn where
  "no_attribute =
     HTTPException 400
       ''At least one variation parameter (pose, expression, setting) must be provided''"

text \<open>
  The reference a generation returns for the file it wrote at clock reading
  \<open>ticks w\<close>: below the asset root \<open>images\<close>, the character's identifier, the
  \<open>variations\<close> scope for a variation, and the file name made of the identifier and
  the timestamp.
\<close>

definition asset_reference :: "env \<Rightarrow> character \<Rightarrow> params option \<Rightarrow> world \<Rightarrow> string" where
  "asset_reference e c vp w =
     ''images/'' @ uuid_str (char_id c) @ ''/'' @
     (if truthy_params vp then ''variations/'' else []) @
     uuid_str (char_id c) @ ''_'' @ strftime e (clock e (ticks w)) @ ''.png''"

text \<open>The failure \<open>_write_storage\<close> raises.\<close>

definition storage_failed :: exn where
  "storage_failed = HTTPException 500 ''Failed to save character data.''"

section \<open>Example data\<close>

definition fox :: character where
  "fox = \<lparr>description = ''a red fox'', name = None,
     char_id = 0x123e4567e89b12d3a456426614174000, created_at = 10, updated_at = 10,
     base_image_path = Some ''images/x.png'', image_seed = Some 5, variations = []\<rparr>"

definition picture :: image_item where
  "picture = \<lparr>item_url = Some ''https://img/1'', item_seed = None\<rparr>"

definition env_ok :: env where
  "env_ok = \<lparr>backend = (\<lambda>p s. Returns [picture]), http_get = (\<lambda>u. Content [1, 2, 3]),
     clock = (\<lambda>n. 100 + n), strftime = (\<lambda>t. ''20250101120000000000''), randint = 42,
     uuid4 = 7, makedirs_ok = True, image_write = Written, storage_write = Written,
     rmtree = Removed\<rparr>"

definition w_fox :: world where
  "w_fox = \<lparr>storage = Decoded [Entry (char_id fox) fox],
     images = (\<lambda>k. if k = char_id fox then Some [(''base.png'', [])] else None),
     ticks = 0, requests = [], downloads = []\<rparr>"

definition w_new :: world where
  "w_new = \<lparr>storage = Missing, images = (\<lambda>k. None), ticks = 0, requests = [],
     downloads = []\<rparr>"

definition cub :: character where
  "cub = fox\<lparr>image_seed := None\<rparr>"

definition sitting :: "params option" where
  "sitting = Some [(''pose'', ''sitting'')]"

definition old_message :: string where
  "old_message = ''Images.generate() got an '' @ seed_unsupported"

definition old_client :: "string \<Rightarrow> int option \<Rightarrow> backend_reply" where
  "old_client p s =
     (case s of
        Some n \<Rightarrow> Raises (TypeError old_message)
      | None \<Rightarrow> Returns [picture])"

definition env_old :: env where
  "env_old = env_ok\<lparr>backend := old_client\<rparr>"

definition env_limited :: env where
  "env_limited = env_ok\<lparr>backend := (\<lambda>p s. Raises (OtherError ''rate limit''))\<rparr>"

definition env_offline :: env where
  "env_offline = env_ok\<lparr>http_get := (\<lambda>u. FetchRaises RequestError)\<rparr>"

definition env_echo :: env where
  "env_echo = env_ok\<lparr>backend := (\<lambda>p s. Returns [picture\<lparr>item_seed := Some 7\<rparr>])\<rparr>"

definition cat_data :: character_base where
  "cat_data = \<lparr>description = ''a cat'', name = Some ''Tom''\<rparr>"

definition env_stuck :: env where
  "env_stuck = env_ok\<lparr>rmtree := RemoveFailed [(''left.png'', [])]\<rparr>"

definition w_bad :: world where
  "w_bad = w_fox\<lparr>storage := NotText\<rparr>"

definition env_echo_offline :: env where
  "env_echo_offline = env_echo\<lparr>http_get := (\<lambda>u. FetchRaises RequestError)\<rparr>"

section \<open>The prompt\<close>

lemma length_uuid_str: "length (uuid_str u) = 36"
  by (simp add: uuid_str_def uuid_hex_def Let_def)

lemma fox_id_short: "take 8 (uuid_str (char_id fox)) = ''123e4567''"
  by (simp add: fox_def uuid_str_def uuid_hex_def hex_digit_def upt_rec)

text \<open>
  Claim C7. The prompt is a function of the description, the identifier and the
  variation attributes alone: it is the fixed opening, the first eight characters of
  the identifier's string, the description, then the texts of the attributes that
  are present and non-empty in the order pose, expression, setting, then the fixed
  closing instruction. Equal inputs give equal prompts, since the right-hand side
  reads nothing else.
\<close>

theorem create_prompt_spec:
  "create_prompt character variation_params =
     prompt_intro @ take 8 (uuid_str (char_id character)) @ prompt_middle @
     description character @
     attribute_text variation_params ''pose'' ''. Pose: '' @
     attribute_text variation_params ''expression'' ''. Expression: '' @
     attribute_text variation_params ''setting'' ''. Setting: '' @
     prompt_closing
   \<and> length (take 8 (uuid_str (char_id character))) = 8"
  by (cases variation_params)
     (simp_all add: create_prompt_def append_attribute_def get_truthy_def attribute_text_def
        length_uuid_str Let_def split: option.splits)

theorem create_prompt_spec_witness:
  "create_prompt fox (Some [(''setting'', ''forest''), (''expression'', []), (''pose'', ''sitting'')]) =
     prompt_intro @ ''123e4567'' @ prompt_middle @ ''a red fox'' @
     ''. Pose: sitting'' @ ''. Setting: forest'' @ prompt_closing"
  using create_prompt_spec [of fox
      "Some [(''setting'', ''forest''), (''expression'', []), (''pose'', ''sitting'')]"]
  by (simp add: attribute_text_def fox_id_short) (simp add: fox_def)

section \<open>The record store\<close>

lemma update_fresh: "k \<notin> fst ` set al \<Longrightarrow> AList.update k v al = al @ [(k, v)]"
  by (induction al) auto

lemma load_entries_distinct:
  "distinct (map fst acc) \<Longrightarrow> distinct (map fst (load_entries es acc))"
proof (induction es arbitrary: acc)
  case Nil
  then show ?case by simp
next
  case (Cons entry es)
  then show ?case by (cases entry) (simp_all add: distinct_update)
qed

lemma load_entries_written:
  "distinct (map fst (acc @ cs)) \<Longrightarrow>
   load_entries (map (\<lambda>(k, v). Entry k v) cs) acc = acc @ cs"
proof (induction cs arbitrary: acc)
  case Nil
  then show ?case by simp
next
  case (Cons kv cs)
  obtain k v where kv: "kv = (k, v)" by (cases kv)
  from Cons.prems kv have fresh: "k \<notin> fst ` set acc" by auto
  from Cons.prems kv have "distinct (map fst ((acc @ [(k, v)]) @ cs))" by auto
  then have "load_entries (map (\<lambda>(k, v). Entry k v) cs) (acc @ [(k, v)]) = (acc @ [(k, v)]) @ cs"
    by (rule Cons.IH)
  with fresh kv show ?case by (simp add: update_fresh)
qed

lemma read_storage_distinct: "read_storage f = Inr cs \<Longrightarrow> distinct (map fst cs)"
  by (cases f) (auto simp: read_storage_def load_entries_distinct)

lemma read_written:
  "distinct (map fst cs) \<Longrightarrow> read_storage (Decoded (map (\<lambda>(k, v). Entry k v) cs)) = Inr cs"
  using load_entries_written [of "[]" cs] by (simp add: read_storage_def)

lemma write_storage_cases:
  "write_storage e cs w = (Inr u, w') \<Longrightarrow>
   storage_write e = Written \<and> w' = w\<lparr>storage := Decoded (map (\<lambda>(k, v). Entry k v) cs)\<rparr>"
  by (cases "storage_write e") (auto simp: write_storage_def)

lemma save_character_Inr:
  assumes "save_character e c w = (Inr c', w')"
  shows "\<exists>cs. read_storage (storage w) = Inr cs \<and> c' = c\<lparr>updated_at := clock e (ticks w)\<rparr> \<and>
           storage w' = Decoded (map (\<lambda>(k, v). Entry k v) (AList.update (char_id c) c' cs))"
  using assms
  by (auto simp: save_character_def now_def Let_def split: sum.splits prod.splits
      dest!: write_storage_cases)

lemma save_fox:
  "save_character env_ok fox w_new =
     (Inr (fox\<lparr>updated_at := 100\<rparr>),
      w_new\<lparr>ticks := 1, storage := Decoded [Entry (char_id fox) (fox\<lparr>updated_at := 100\<rparr>)]\<rparr>)"
  by (simp add: save_character_def read_storage_def w_new_def env_ok_def now_def
      write_storage_def Let_def)

text \<open>
  Claim C8. When \<open>save_character\<close> returns a record, \<open>get_character\<close> on the same
  identity afterwards returns that record, equal in every field, \<open>updated_at\<close>
  included; it is the record given, with \<open>updated_at\<close> set to the time of the save.
\<close>

theorem save_then_get:
  assumes "save_character e c w = (Inr c', w')"
  shows "get_character (char_id c) w' = Inr (Some c') \<and>
         c' = c\<lparr>updated_at := clock e (ticks w)\<rparr>"
proof -
  from save_character_Inr [OF assms] obtain cs where
    r: "read_storage (storage w) = Inr cs" and
    c': "c' = c\<lparr>updated_at := clock e (ticks w)\<rparr>" and
    s: "storage w' = Decoded (map (\<lambda>(k, v). Entry k v) (AList.update (char_id c) c' cs))"
    by blast
  have "distinct (map fst (AList.update (char_id c) c' cs))"
    using read_storage_distinct [OF r] by (simp add: distinct_update)
  then have "read_storage (storage w') = Inr (AList.update (char_id c) c' cs)"
    using s by (simp add: read_written)
  then show ?thesis using c' by (simp add: get_character_def update_conv')
qed

theorem save_then_get_witness:
  "fst (save_character env_ok fox w_new) = Inr (fox\<lparr>updated_at := 100\<rparr>) \<and>
   get_character (char_id fox) (snd (save_character env_ok fox w_new)) =
     Inr (Some (fox\<lparr>updated_at := 100\<rparr>))"
  using save_then_get [OF save_fox, THEN conjunct1] by (simp add: save_fox)

lemma delete_character_True:
  assumes "delete_character e cid w = (Inr True, w')"
  shows "\<exists>cs. read_storage (storage w) = Inr cs \<and> map_of cs cid \<noteq> None \<and>
           w' = (remove_image_directory e cid w)
                  \<lparr>storage := Decoded (map (\<lambda>(k, v). Entry k v) (AList.delete cid cs))\<rparr>"
  using assms
  by (auto simp: delete_character_def Let_def split: sum.splits prod.splits if_splits
      dest!: write_storage_cases)

lemma storage_remove_image_directory [simp]:
  "storage (remove_image_directory e cid w) = storage w"
  by (simp add: remove_image_directory_def split: option.splits rmtree_outcome.splits)

lemma read_after_delete:
  assumes "delete_character e cid w = (Inr True, w')"
  shows "\<exists>cs. read_storage (storage w) = Inr cs \<and>
           read_storage (storage w') = Inr (AList.delete cid cs)"
proof -
  from delete_character_True [OF assms] obtain cs where
    r: "read_storage (storage w) = Inr cs" and
    w': "w' = (remove_image_directory e cid w)
                \<lparr>storage := Decoded (map (\<lambda>(k, v). Entry k v) (AList.delete cid cs))\<rparr>"
    by blast
  have "distinct (map fst (AList.delete cid cs))"
    using read_storage_distinct [OF r] by (simp add: distinct_delete)
  then show ?thesis using r w' by (simp add: read_written)
qed

lemma delete_unknown:
  "read_storage (storage w) = Inr cs \<Longrightarrow> map_of cs cid = None \<Longrightarrow>
   delete_character e cid w = (Inr False, w)"
  by (simp add: delete_character_def)

text \<open>
  Claim C6. For an identity that the store does not hold, \<open>get_character\<close> returns
  \<open>None\<close> and raises nothing, \<open>delete_character\<close> returns \<open>False\<close> and the variation
  endpoint fails with the 404 of a missing character, each leaving the whole state as it
  was. After a \<open>delete_character\<close> that returned \<open>True\<close>, \<open>get_character\<close> on that
  identity returns \<open>None\<close> and a second \<open>delete_character\<close> returns \<open>False\<close>.
\<close>

theorem unknown_identity:
  "(read_storage (storage w) = Inr cs \<and> map_of cs cid = None \<longrightarrow>
      get_character cid w = Inr None \<and>
      delete_character e cid w = (Inr False, w) \<and>
      create_character_variation e cid p ex st w =
        (Inl (HTTPException 404 ''Character not found''), w)) \<and>
   (delete_character e cid w = (Inr True, w') \<longrightarrow>
      get_character cid w' = Inr None \<and>
      delete_character e' cid w' = (Inr False, w'))"
proof (intro conjI impI)
  assume a: "read_storage (storage w) = Inr cs \<and> map_of cs cid = None"
  then show g: "get_character cid w = Inr None" by (simp add: get_character_def)
  from a show "delete_character e cid w = (Inr False, w)" by (simp add: delete_unknown)
  from g show "create_character_variation e cid p ex st w =
      (Inl (HTTPException 404 ''Character not found''), w)"
    by (simp add: create_character_variation_def)
next
  assume d: "delete_character e cid w = (Inr True, w')"
  from read_after_delete [OF d] obtain cs where
    r': "read_storage (storage w') = Inr (AList.delete cid cs)" by blast
  have gone: "map_of (AList.delete cid cs) cid = None" by (simp add: delete_conv')
  from r' gone show "get_character cid w' = Inr None" by (simp add: get_character_def)
  from r' gone show "delete_character e' cid w' = (Inr False, w')" by (rule delete_unknown)
qed

lemma delete_fox:
  "delete_character env_ok (char_id fox) w_fox =
     (Inr True, w_fox\<lparr>storage := Decoded [], images := (images w_fox)(char_id fox := None)\<rparr>)"
  by (simp add: delete_character_def read_storage_def w_fox_def env_ok_def
      write_storage_def remove_image_directory_def Let_def)

lemma read_w_fox: "read_storage (storage w_fox) = Inr [(char_id fox, fox)]"
  by (simp add: read_storage_def w_fox_def)

lemma fox_is_not_9: "char_id fox \<noteq> 9"
  by (simp add: fox_def)

theorem unknown_identity_witness:
  "get_character 9 w_fox = Inr None \<and>
   delete_character env_ok 9 w_fox = (Inr False, w_fox) \<and>
   create_character_variation env_ok 9 (Some ''sitting'') None None w_fox =
     (Inl (HTTPException 404 ''Character not found''), w_fox) \<and>
   fst (delete_character env_ok (char_id fox) w_fox) = Inr True \<and>
   get_character (char_id fox) (snd (delete_character env_ok (char_id fox) w_fox)) = Inr None \<and>
   delete_character env_ok (char_id fox) (snd (delete_character env_ok (char_id fox) w_fox)) =
     (Inr False, snd (delete_character env_ok (char_id fox) w_fox))"
  using unknown_identity [of w_fox "[(char_id fox, fox)]" 9 env_ok "Some ''sitting''" None None]
    unknown_identity [of w_fox "[]" "char_id fox" env_ok None None None
      "snd (delete_character env_ok (char_id fox) w_fox)" env_ok]
  by (simp add: read_w_fox fox_is_not_9 delete_fox)

text \<open>
  When the storage file is missing, or is text that \<open>json.load\<close> rejects with
  \<open>JSONDecodeError\<close>, the store behaves as an empty collection: \<open>get_character\<close>
  finds nothing, \<open>get_all_characters\<close> is empty, \<open>update_character\<close> and
  \<open>delete_character\<close> report the identity absent, and a \<open>save_character\<close> whose write
  succeeds leaves a file that holds the saved record and nothing else.
\<close>

theorem empty_collection:
  assumes "storage w = Missing \<or> storage w = Undecodable"
  shows "get_character cid w = Inr None \<and>
         get_all_characters w = Inr [] \<and>
         update_character e c w = (Inr None, w) \<and>
         delete_character e cid w = (Inr False, w) \<and>
         (storage_write e = Written \<longrightarrow>
            save_character e c w =
              (Inr (c\<lparr>updated_at := clock e (ticks w)\<rparr>),
               w\<lparr>ticks := Suc (ticks w),
                 storage := Decoded [Entry (char_id c) (c\<lparr>updated_at := clock e (ticks w)\<rparr>)]\<rparr>))"
proof -
  from assms have r: "read_storage (storage w) = Inr []"
    by (auto simp: read_storage_def)
  show ?thesis
    using r
    by (simp add: get_character_def get_all_characters_def update_character_def
        delete_character_def save_character_def now_def write_storage_def Let_def)
qed

theorem empty_collection_witness:
  "storage w_new = Missing \<and>
   get_character (char_id fox) w_new = Inr None \<and>
   get_all_characters w_new = Inr [] \<and>
   save_character env_ok fox w_new =
     (Inr (fox\<lparr>updated_at := 100\<rparr>),
      w_new\<lparr>ticks := 1, storage := Decoded [Entry (char_id fox) (fox\<lparr>updated_at := 100\<rparr>)]\<rparr>)"
  using empty_collection [of w_new "char_id fox" env_ok fox]
  by (simp add: w_new_def env_ok_def)

lemma images_remove_image_directory:
  "images (remove_image_directory e cid w) =
     (images w)(cid := (case images w cid of
                          None \<Rightarrow> None
                        | Some files \<Rightarrow>
                            (case rmtree e of Removed \<Rightarrow> None | RemoveFailed left \<Rightarrow> Some left)))"
  by (auto simp: remove_image_directory_def split: option.splits rmtree_outcome.splits)

text \<open>
  The store's delete does remove asset files: the fox's directory holds a file before
  \<open>delete_character\<close> and is absent after it, and the endpoint adds nothing to that.
\<close>

theorem store_delete_removes_files:
  "images w_fox (char_id fox) = Some [(''base.png'', [])] \<and>
   fst (delete_character env_ok (char_id fox) w_fox) = Inr True \<and>
   images (snd (delete_character env_ok (char_id fox) w_fox)) (char_id fox) = None \<and>
   snd (remove_character env_ok (char_id fox) w_fox) =
     snd (delete_character env_ok (char_id fox) w_fox)"
  by (simp add: delete_fox remove_character_def) (simp add: w_fox_def)

section \<open>Image generation\<close>

lemma request_image_seeded:
  "request_image e p (Some s) w =
     (reply_result (if seed_rejected (backend e p (Some s)) then backend e p None
                    else backend e p (Some s)),
      w\<lparr>requests := requests w @
           (if seed_rejected (backend e p (Some s)) then [(p, Some s), (p, None)]
            else [(p, Some s)])\<rparr>)"
  by (auto simp: request_image_def seed_rejected_def reply_result_def Let_def
      split: backend_reply.splits exn.splits)

lemma download_keeps:
  "download e u w = (r, w') \<Longrightarrow> requests w' = requests w \<and> storage w' = storage w"
  by (auto simp: download_def Let_def split: fetch_reply.splits exn.splits)

lemma write_image_keeps:
  "write_image e c vp d w = (r, w') \<Longrightarrow> requests w' = requests w \<and> storage w' = storage w"
  by (auto simp: write_image_def now_def Let_def split: write_outcome.splits if_splits)

lemma process_response_keeps:
  "process_response e c vp r w = (res, c', w') \<Longrightarrow>
   requests w' = requests w \<and> storage w' = storage w"
  by (auto simp: process_response_def split: prod.splits sum.splits
      dest!: download_keeps write_image_keeps)

lemma generate_steps_seeded:
  assumes "choose_seed e c vp = (Some s, c1)"
  shows "generate_steps e c vp w =
     (let p = create_prompt c vp;
          first = backend e p (Some s);
          w1 = w\<lparr>requests := requests w @
                 (if seed_rejected first then [(p, Some s), (p, None)] else [(p, Some s)])\<rparr>
      in case (if seed_rejected first then backend e p None else first) of
           Raises x \<Rightarrow> (Inl x, c1, w1)
         | Returns response \<Rightarrow> process_response e c1 vp response w1)"
  using assms
  by (simp add: generate_steps_def request_image_seeded reply_result_def Let_def
      split: backend_reply.splits)

lemma generate_keeps:
  "generate_character_image e c vp w = (r, c', w') \<Longrightarrow> storage w' = storage w"
  by (auto simp: generate_character_image_def generate_steps_def request_image_def Let_def
      split: prod.splits sum.splits option.splits backend_reply.splits exn.splits if_splits
      dest!: process_response_keeps)

lemma generate_requests:
  assumes "choose_seed e c vp = (Some s, c1)"
  shows "requests (snd (snd (generate_character_image e c vp w))) =
     requests w @
       (if seed_rejected (backend e (create_prompt c vp) (Some s))
        then [(create_prompt c vp, Some s), (create_prompt c vp, None)]
        else [(create_prompt c vp, Some s)])"
proof -
  let ?p = "create_prompt c vp"
  let ?first = "backend e ?p (Some s)"
  let ?w1 = "w\<lparr>requests := requests w @
      (if seed_rejected ?first then [(?p, Some s), (?p, None)] else [(?p, Some s)])\<rparr>"
  let ?decisive = "if seed_rejected ?first then backend e ?p None else ?first"
  note steps = generate_steps_seeded [OF assms, of w, unfolded Let_def]
  show ?thesis
  proof (cases ?decisive)
    case (Raises x)
    with steps have "generate_steps e c vp w = (Inl x, c1, ?w1)" by simp
    then show ?thesis by (simp add: generate_character_image_def)
  next
    case (Returns response)
    with steps have g: "generate_steps e c vp w = process_response e c1 vp response ?w1"
      by simp
    obtain r c2 w2 where pr: "process_response e c1 vp response ?w1 = (r, c2, w2)"
      by (cases "process_response e c1 vp response ?w1") auto
    from process_response_keeps [OF pr] have "requests w2 = requests ?w1" by simp
    with g pr show ?thesis by (cases r) (simp_all add: generate_character_image_def)
  qed
qed

text \<open>
  Claim C9. A variation request (non-empty variation parameters) for a character whose
  \<open>image_seed\<close> is \<open>None\<close> ends in the generation failure with the whole state as it
  was: no backend request, no download, no file, and the character unchanged.
\<close>

theorem variation_without_seed:
  assumes "truthy_params vp" and "image_seed c = None"
  shows "generate_character_image e c vp w = (Inl generation_failed, c, w)"
  using assms
  by (simp add: generate_character_image_def generate_steps_def choose_seed_def
      request_image_def)


lemma str_contains_self: "str_contains b b"
  by (cases b) simp_all

lemma str_contains_append: "str_contains (a @ b) b"
  by (induction a) (simp_all add: str_contains_self)

lemma str_contains_old_message: "str_contains old_message seed_unsupported"
  unfolding old_message_def by (rule str_contains_append)

lemma seed_rejected_old: "seed_rejected (backend env_old p (Some s))"
  by (simp add: env_old_def old_client_def seed_rejected_def str_contains_old_message)

lemma retry_old: "backend env_old p None = Returns [picture]"
  by (simp add: env_old_def old_client_def)

lemma seed_rejected_limited:
  "backend env_limited p s = Raises (OtherError ''rate limit'')"
  "\<not> seed_rejected (Raises (OtherError m))"
  by (simp_all add: env_limited_def seed_rejected_def)

lemma choose_seed_fox: "choose_seed e fox sitting = (Some 5, fox)"
  by (simp add: choose_seed_def truthy_params_def sitting_def fox_def)

lemma requests_w_fox: "requests w_fox = []"
  by (simp add: w_fox_def)

theorem variation_without_seed_witness:
  "truthy_params sitting \<and> image_seed cub = None \<and>
   generate_character_image env_ok cub sitting w_fox = (Inl generation_failed, cub, w_fox)"
  using variation_without_seed [of sitting cub env_ok w_fox]
  by (simp add: truthy_params_def sitting_def cub_def)

lemma new_character_keeps: "new_character e d w = (c, w1) \<Longrightarrow> storage w1 = storage w"
  by (auto simp: new_character_def now_def Let_def)

lemma backend_failure:
  assumes "choose_seed e c vp = (Some s, c1)"
    and "(if seed_rejected (backend e (create_prompt c vp) (Some s))
          then backend e (create_prompt c vp) None
          else backend e (create_prompt c vp) (Some s)) = Raises x"
  shows "fst (generate_steps e c vp w) = Inl x"
  using generate_steps_seeded [OF assms(1), of w] assms(2) by (simp add: Let_def)

lemma download_failure: "http_get e u = FetchRaises x \<Longrightarrow> \<exists>y. fst (download e u w) = Inl y"
  by (auto simp: download_def Let_def split: exn.splits)

lemma write_failure:
  "\<not> makedirs_ok e \<or> image_write e \<noteq> Written \<Longrightarrow> \<exists>y. fst (write_image e c vp d w) = Inl y"
  by (auto simp: write_image_def now_def Let_def split: write_outcome.splits)

lemma process_response_failure:
  "fst (read_response r c) = Inl y \<Longrightarrow> \<exists>z. fst (process_response e c vp r w) = Inl z"
  "read_response r c = (Inr u, c2) \<Longrightarrow> fst (download e u w) = Inl y \<Longrightarrow>
     \<exists>z. fst (process_response e c vp r w) = Inl z"
  "read_response r c = (Inr u, c2) \<Longrightarrow> download e u w = (Inr d, w2) \<Longrightarrow>
     fst (write_image e c2 vp d w2) = Inl y \<Longrightarrow>
     \<exists>z. fst (process_response e c vp r w) = Inl z"
  by (auto simp: process_response_def split: prod.splits sum.splits)

text \<open>
  Claim C5. When anything is raised in the generation of the base image (by the backend
  request, the reading of the response, the download or the writing of the file, see
  \<open>backend_failure\<close>, \<open>download_failure\<close>, \<open>write_failure\<close> and
  \<open>process_response_failure\<close>), \<open>create_character\<close> returns the generation failure and
  the storage file is what it was: no record is saved.
\<close>

theorem create_character_aborts:
  assumes "new_character e d w = (c, w1)"
    and "fst (generate_steps e c None w1) = Inl x"
  shows "fst (create_character e d w) = Inl generation_failed \<and>
         storage (snd (create_character e d w)) = storage w"
proof -
  obtain c2 w2 where s: "generate_steps e c None w1 = (Inl x, c2, w2)"
    using assms(2) by (cases "generate_steps e c None w1") auto
  then have g: "generate_character_image e c None w1 = (Inl generation_failed, c2, w2)"
    by (simp add: generate_character_image_def)
  from generate_keeps [OF g] new_character_keeps [OF assms(1)]
  have "storage w2 = storage w" by simp
  with g assms(1) show ?thesis by (simp add: create_character_def)
qed

lemma kitten:
  "new_character env_offline cat_data w_fox =
     (\<lparr>description = ''a cat'', name = Some ''Tom'', char_id = 7, created_at = 100,
       updated_at = 101, base_image_path = None, image_seed = None, variations = []\<rparr>,
      w_fox\<lparr>ticks := 2\<rparr>)"
  by (simp add: new_character_def now_def env_offline_def env_ok_def cat_data_def w_fox_def
      Let_def)

lemma kitten_fails:
  "fst (generate_steps env_offline
      \<lparr>description = ''a cat'', name = Some ''Tom'', char_id = 7, created_at = 100,
       updated_at = 101, base_image_path = None, image_seed = None, variations = []\<rparr>
      None (w_fox\<lparr>ticks := 2\<rparr>)) =
   Inl (HTTPException 500 ''Failed to download image from OpenAI: Request Error'')"
  by (simp add: generate_steps_def choose_seed_def truthy_params_def request_image_def
      env_offline_def env_ok_def picture_def process_response_def read_response_def
      download_def Let_def)

theorem create_character_aborts_witness:
  "fst (create_character env_offline cat_data w_fox) = Inl generation_failed \<and>
   storage (snd (create_character env_offline cat_data w_fox)) = storage w_fox"
  using create_character_aborts [OF kitten kitten_fails] by simp

lemma process_response_character:
  "process_response e c vp response w = (Inr path, c', w') \<Longrightarrow>
   \<exists>item rest. response = item # rest \<and>
     c' = (case item_seed item of None \<Rightarrow> c | Some s' \<Rightarrow> c\<lparr>image_seed := Some s'\<rparr>)"
  by (auto simp: process_response_def read_response_def Let_def
      split: prod.splits sum.splits list.splits option.splits if_splits)

lemma generate_character:
  assumes "choose_seed e c vp = (Some s, c1)"
    and "generate_character_image e c vp w = (Inr path, c', w')"
  shows "\<exists>item rest. fst (request_image e (create_prompt c vp) (Some s) w) = Inr (item # rest) \<and>
     c' = (case item_seed item of None \<Rightarrow> c1 | Some s' \<Rightarrow> c1\<lparr>image_seed := Some s'\<rparr>)"
proof -
  from assms(2) have g: "generate_steps e c vp w = (Inr path, c', w')"
    by (auto simp: generate_character_image_def split: prod.splits sum.splits)
  obtain r w1 where q: "request_image e (create_prompt c vp) (Some s) w = (r, w1)"
    by (cases "request_image e (create_prompt c vp) (Some s) w") auto
  from g assms(1) q obtain response where
    r: "r = Inr response" and pr: "process_response e c1 vp response w1 = (Inr path, c', w')"
    by (cases r) (auto simp: generate_steps_def Let_def)
  from process_response_character [OF pr] q r show ?thesis by auto
qed

lemma choose_seed_variation:
  "truthy_params vp \<Longrightarrow> image_seed c = Some s \<Longrightarrow> choose_seed e c vp = (Some s, c)"
  by (simp add: choose_seed_def)

lemma choose_seed_base:
  "choose_seed e c None = (Some (randint e), c\<lparr>image_seed := Some (randint e)\<rparr>)"
  by (simp add: choose_seed_def truthy_params_def)

lemma update_character_Some:
  assumes "update_character e c w = (Inr (Some c'), w')"
  shows "c' = c\<lparr>updated_at := clock e (ticks w)\<rparr> \<and> get_character (char_id c) w' = Inr (Some c')"
proof -
  from assms obtain cs where
    r: "read_storage (storage w) = Inr cs" and
    c': "c' = c\<lparr>updated_at := clock e (ticks w)\<rparr>" and
    s: "storage w' = Decoded (map (\<lambda>(k, v). Entry k v) (AList.update (char_id c) c' cs))"
    by (auto simp: update_character_def now_def Let_def
        split: sum.splits prod.splits if_splits option.splits dest!: write_storage_cases)
  have "distinct (map fst (AList.update (char_id c) c' cs))"
    using read_storage_distinct [OF r] by (simp add: distinct_update)
  then have "read_storage (storage w') = Inr (AList.update (char_id c) c' cs)"
    using s by (simp add: read_written)
  then show ?thesis using c' by (simp add: get_character_def update_conv')
qed

lemma active_variation_params_get:
  "map_of (active_variation_params p ex st) ''pose'' = p"
  "map_of (active_variation_params p ex st) ''expression'' = ex"
  "map_of (active_variation_params p ex st) ''setting'' = st"
  by (cases p; cases ex; cases st; simp add: active_variation_params_def)+

lemma active_variation_params_empty:
  "active_variation_params p ex st = [] \<longleftrightarrow> p = None \<and> ex = None \<and> st = None"
  by (cases p; cases ex; cases st; simp add: active_variation_params_def)

lemma variation_Inr:
  assumes "get_character cid w = Inr (Some c)"
    and "create_character_variation e cid p ex st w = (Inr c', w')"
  shows "\<exists>path c1 w1 t.
     active_variation_params p ex st \<noteq> [] \<and>
     generate_character_image e c (Some (active_variation_params p ex st)) w = (Inr path, c1, w1) \<and>
     c' = c1\<lparr>variations := variations c1 @
            [\<lparr>image_path = path, pose = p, expression = ex, setting = st, generated_at = t\<rparr>],
          updated_at := clock e (ticks (snd (now e w1)))\<rparr> \<and>
     get_character (char_id c1) w' = Inr (Some c') \<and>
     requests w' = requests w1"
proof -
  let ?active = "active_variation_params p ex st"
  from assms have ne: "?active \<noteq> []"
    by (auto simp: create_character_variation_def Let_def split: if_splits)
  obtain r c1 w1 where g: "generate_character_image e c (Some ?active) w = (r, c1, w1)"
    by (cases "generate_character_image e c (Some ?active) w") auto
  from assms ne g obtain path where r: "r = Inr path" and pne: "path \<noteq> []"
    by (cases r) (auto simp: create_character_variation_def Let_def split: if_splits)
  let ?t = "clock e (ticks w1)"
  let ?w2 = "snd (now e w1)"
  let ?v = "\<lparr>image_path = path, pose = p, expression = ex, setting = st, generated_at = ?t\<rparr>"
  let ?c2 = "c1\<lparr>variations := variations c1 @ [?v]\<rparr>"
  from assms ne g r pne have u: "update_character e ?c2 ?w2 = (Inr (Some c'), w')"
    by (auto simp: create_character_variation_def Let_def now_def active_variation_params_get
        split: prod.splits sum.splits option.splits)
  from update_character_Some [OF u] have
    c': "c' = ?c2\<lparr>updated_at := clock e (ticks ?w2)\<rparr>" and
    got: "get_character (char_id c1) w' = Inr (Some c')" by simp_all
  from u have "requests w' = requests ?w2"
    by (auto simp: update_character_def now_def Let_def write_storage_def
        split: sum.splits prod.splits if_splits write_outcome.splits)
  then have "requests w' = requests w1" by (simp add: now_def)
  with ne g r c' got show ?thesis by auto
qed

lemma write_image_ok:
  assumes "makedirs_ok e" and "image_write e = Written"
  shows "\<exists>path w'. path \<noteq> [] \<and> write_image e c vp d w = (Inr path, w')"
  using assms
  by (simp add: write_image_def now_def Let_def relpath_def path_join_def
      STATIC_FILES_DIR_def IMAGE_STORAGE_PATH_def)

lemma process_response_ok:
  assumes "item_url item = Some u" and "u \<noteq> []" and "http_get e u = Content d"
    and "makedirs_ok e" and "image_write e = Written"
  shows "\<exists>path w'. path \<noteq> [] \<and>
     process_response e c vp (item # rest) w =
       (Inr path,
        (case item_seed item of None \<Rightarrow> c | Some s' \<Rightarrow> c\<lparr>image_seed := Some s'\<rparr>), w')"
proof -
  let ?c = "case item_seed item of None \<Rightarrow> c | Some s' \<Rightarrow> c\<lparr>image_seed := Some s'\<rparr>"
  let ?w1 = "w\<lparr>downloads := downloads w @ [u]\<rparr>"
  have rr: "read_response (item # rest) c = (Inr u, ?c)"
    using assms(1,2) by (simp add: read_response_def Let_def)
  have dl: "download e u w = (Inr d, ?w1)"
    using assms(3) by (simp add: download_def Let_def)
  from write_image_ok [OF assms(4,5), of ?c vp d ?w1] obtain path w' where
    "path \<noteq> []" and "write_image e ?c vp d ?w1 = (Inr path, w')" by blast
  with rr dl show ?thesis by (simp add: process_response_def)
qed

lemma generate_ok:
  assumes "choose_seed e c vp = (Some s, c1)"
    and "backend e (create_prompt c vp) (Some s) = Returns (item # rest)"
    and "item_url item = Some u" and "u \<noteq> []" and "http_get e u = Content d"
    and "makedirs_ok e" and "image_write e = Written"
  shows "\<exists>path w'. path \<noteq> [] \<and>
     generate_character_image e c vp w =
       (Inr path,
        (case item_seed item of None \<Rightarrow> c1 | Some s' \<Rightarrow> c1\<lparr>image_seed := Some s'\<rparr>), w')"
proof -
  let ?w1 = "w\<lparr>requests := requests w @ [(create_prompt c vp, Some s)]\<rparr>"
  have "\<not> seed_rejected (backend e (create_prompt c vp) (Some s))"
    using assms(2) by (simp add: seed_rejected_def)
  with generate_steps_seeded [OF assms(1), of w] assms(2)
  have g: "generate_steps e c vp w = process_response e c1 vp (item # rest) ?w1"
    by (simp add: Let_def)
  from process_response_ok [OF assms(3-7), of c1 vp rest ?w1] obtain path w' where
    "path \<noteq> []" and
    "process_response e c1 vp (item # rest) ?w1 =
       (Inr path,
        (case item_seed item of None \<Rightarrow> c1 | Some s' \<Rightarrow> c1\<lparr>image_seed := Some s'\<rparr>), w')"
    by blast
  with g show ?thesis by (simp add: generate_character_image_def)
qed

lemma generate_char_id:
  "generate_character_image e c vp w = (r, c', w') \<Longrightarrow>
   char_id c' = char_id c \<and> variations c' = variations c"
  by (auto simp: generate_character_image_def generate_steps_def choose_seed_def
      request_image_def process_response_def read_response_def Let_def
      split: prod.splits sum.splits option.splits backend_reply.splits exn.splits if_splits
        list.splits)

lemma variation_ok:
  assumes "get_character cid w = Inr (Some c)" and "char_id c = cid"
    and "image_seed c = Some s" and "active_variation_params p ex st \<noteq> []"
    and "backend e (create_prompt c (Some (active_variation_params p ex st))) (Some s) =
           Returns (item # rest)"
    and "item_url item = Some u" and "u \<noteq> []" and "http_get e u = Content d"
    and "makedirs_ok e" and "image_write e = Written" and "storage_write e = Written"
  shows "\<exists>c' w'. create_character_variation e cid p ex st w = (Inr c', w')"
proof -
  let ?active = "active_variation_params p ex st"
  have cs: "choose_seed e c (Some ?active) = (Some s, c)"
    using assms(3,4) by (simp add: choose_seed_variation truthy_params_def)
  from generate_ok [OF cs assms(5-10), of w] obtain path c1 w1 where
    pne: "path \<noteq> []" and g: "generate_character_image e c (Some ?active) w = (Inr path, c1, w1)"
    by blast
  from generate_char_id [OF g] assms(2) have id1: "char_id c1 = cid" by simp
  from generate_keeps [OF g] have "storage w1 = storage w" .
  with assms(1) obtain cs' where
    "read_storage (storage w1) = Inr cs'" and "map_of cs' cid = Some c"
    by (auto simp: get_character_def split: sum.splits)
  with id1 assms(1,4,11) pne g show ?thesis
    by (simp add: create_character_variation_def update_character_def now_def
        write_storage_def Let_def)
qed

section \<open>The seed and the variations of a stored character\<close>

lemma seed_after_Returns:
  "backend e p (Some s) = Returns (item # rest) \<Longrightarrow>
   seed_after e p s w = (case item_seed item of None \<Rightarrow> Some s | Some s' \<Rightarrow> Some s')"
  by (simp add: seed_after_def request_image_def Let_def)

lemma seed_after_character:
  assumes "fst (request_image e p (Some s) w) = Inr (item # rest)"
    and "image_seed c1 = Some s"
  shows "image_seed (case item_seed item of None \<Rightarrow> c1 | Some s' \<Rightarrow> c1\<lparr>image_seed := Some s'\<rparr>) =
         seed_after e p s w"
  using assms by (simp add: seed_after_def split: option.splits)

lemma variation_result:
  assumes "get_character cid w = Inr (Some c)" and "image_seed c = Some s"
    and "create_character_variation e cid p ex st w = (Inr c', w')"
  shows "requests w' = requests w @
           (if seed_rejected (backend e (create_prompt c (Some (active_variation_params p ex st))) (Some s))
            then [(create_prompt c (Some (active_variation_params p ex st)), Some s),
                  (create_prompt c (Some (active_variation_params p ex st)), None)]
            else [(create_prompt c (Some (active_variation_params p ex st)), Some s)])"
    and "image_seed c' = seed_after e (create_prompt c (Some (active_variation_params p ex st))) s w"
    and "get_character (char_id c) w' = Inr (Some c')"
    and "\<exists>path t. variations c' = variations c @
           [\<lparr>image_path = path, pose = p, expression = ex, setting = st, generated_at = t\<rparr>]"
    and "p \<noteq> None \<or> ex \<noteq> None \<or> st \<noteq> None"
proof -
  let ?active = "active_variation_params p ex st"
  let ?P = "create_prompt c (Some ?active)"
  from variation_Inr [OF assms(1,3)] obtain path c1 w1 t where
    ne: "?active \<noteq> []" and
    g: "generate_character_image e c (Some ?active) w = (Inr path, c1, w1)" and
    c': "c' = c1\<lparr>variations := variations c1 @
            [\<lparr>image_path = path, pose = p, expression = ex, setting = st, generated_at = t\<rparr>],
          updated_at := clock e (ticks (snd (now e w1)))\<rparr>" and
    got: "get_character (char_id c1) w' = Inr (Some c')" and
    rq: "requests w' = requests w1"
    by blast
  have cs: "choose_seed e c (Some ?active) = (Some s, c)"
    using assms(2) ne by (simp add: choose_seed_variation truthy_params_def)
  from generate_requests [OF cs, of w] g rq
  show "requests w' = requests w @
      (if seed_rejected (backend e ?P (Some s)) then [(?P, Some s), (?P, None)]
       else [(?P, Some s)])"
    by simp
  from generate_character [OF cs g] obtain item rest where
    q: "fst (request_image e ?P (Some s) w) = Inr (item # rest)" and
    c1: "c1 = (case item_seed item of None \<Rightarrow> c | Some s' \<Rightarrow> c\<lparr>image_seed := Some s'\<rparr>)"
    by blast
  from seed_after_character [OF q assms(2)] c1 c'
  show "image_seed c' = seed_after e ?P s w" by simp
  from generate_char_id [OF g] have same: "char_id c1 = char_id c" "variations c1 = variations c"
    by simp_all
  from got same show "get_character (char_id c) w' = Inr (Some c')" by simp
  from c' same show "\<exists>path t. variations c' = variations c @
      [\<lparr>image_path = path, pose = p, expression = ex, setting = st, generated_at = t\<rparr>]"
    by auto
  from ne show "p \<noteq> None \<or> ex \<noteq> None \<or> st \<noteq> None"
    by (simp add: active_variation_params_empty)
qed

lemma create_result:
  assumes "new_character e d w = (c0, w0)" and "create_character e d w = (Inr c1, w1)"
  shows "image_seed c1 = seed_after e (create_prompt c0 None) (randint e) w0"
    and "get_character (char_id c1) w1 = Inr (Some c1)"
proof -
  obtain r c2 w2 where g: "generate_character_image e c0 None w0 = (r, c2, w2)"
    by (cases "generate_character_image e c0 None w0") auto
  from assms g obtain path where r: "r = Inr path" and
    sv: "save_character e (c2\<lparr>base_image_path := Some path\<rparr>) w2 = (Inr c1, w1)"
    by (cases r) (auto simp: create_character_def split: if_splits)
  from save_character_Inr [OF sv] have
    c1: "c1 = c2\<lparr>base_image_path := Some path, updated_at := clock e (ticks w2)\<rparr>"
    by auto
  from g r have g': "generate_character_image e c0 None w0 = (Inr path, c2, w2)" by simp
  from generate_character [OF choose_seed_base g'] obtain item rest where
    q: "fst (request_image e (create_prompt c0 None) (Some (randint e)) w0) = Inr (item # rest)" and
    c2: "c2 = (case item_seed item of None \<Rightarrow> c0\<lparr>image_seed := Some (randint e)\<rparr>
               | Some s' \<Rightarrow> c0\<lparr>image_seed := Some (randint e)\<rparr>\<lparr>image_seed := Some s'\<rparr>)"
    by auto
  have "image_seed c2 = seed_after e (create_prompt c0 None) (randint e) w0"
    using seed_after_character [OF q, of "c0\<lparr>image_seed := Some (randint e)\<rparr>"] c2 by simp
  with c1 show "image_seed c1 = seed_after e (create_prompt c0 None) (randint e) w0" by simp
  have "get_character (char_id (c2\<lparr>base_image_path := Some path\<rparr>)) w1 = Inr (Some c1)"
  proof -
    from save_character_Inr [OF sv] obtain cs where
      rd: "read_storage (storage w2) = Inr cs" and
      s: "storage w1 = Decoded (map (\<lambda>(k, v). Entry k v)
            (AList.update (char_id (c2\<lparr>base_image_path := Some path\<rparr>)) c1 cs))"
      by blast
    have "distinct (map fst (AList.update (char_id (c2\<lparr>base_image_path := Some path\<rparr>)) c1 cs))"
      using read_storage_distinct [OF rd] by (simp add: distinct_update)
    then have "read_storage (storage w1) =
        Inr (AList.update (char_id (c2\<lparr>base_image_path := Some path\<rparr>)) c1 cs)"
      using s by (simp add: read_written)
    then show ?thesis by (simp add: get_character_def update_conv')
  qed
  with c1 show "get_character (char_id c1) w1 = Inr (Some c1)" by simp
qed

text \<open>
  Claim C2, as the code has it. For a stored character, a variation request with no
  attribute given (all three \<open>None\<close>) fails with the HTTP 400 and leaves the whole
  state as it was; a variation request that succeeds was given at least one attribute
  (possibly an empty string) and appends one variation that carries the attributes as
  given.
\<close>

theorem variation_requires_attribute:
  assumes "get_character cid w = Inr (Some c)"
  shows "create_character_variation e cid None None None w = (Inl no_attribute, w) \<and>
         (create_character_variation e cid p ex st w = (Inr c', w') \<longrightarrow>
            (p \<noteq> None \<or> ex \<noteq> None \<or> st \<noteq> None) \<and>
            (\<exists>path t. variations c' = variations c @
               [\<lparr>image_path = path, pose = p, expression = ex, setting = st, generated_at = t\<rparr>]))"
proof (intro conjI impI)
  show "create_character_variation e cid None None None w = (Inl no_attribute, w)"
    using assms
    by (simp add: create_character_variation_def active_variation_params_def no_attribute_def)
next
  assume v: "create_character_variation e cid p ex st w = (Inr c', w')"
  from variation_Inr [OF assms v] obtain path c1 w1 t where
    ne: "active_variation_params p ex st \<noteq> []" and
    g: "generate_character_image e c (Some (active_variation_params p ex st)) w = (Inr path, c1, w1)" and
    c': "c' = c1\<lparr>variations := variations c1 @
            [\<lparr>image_path = path, pose = p, expression = ex, setting = st, generated_at = t\<rparr>],
          updated_at := clock e (ticks (snd (now e w1)))\<rparr>"
    by blast
  from ne show "p \<noteq> None \<or> ex \<noteq> None \<or> st \<noteq> None"
    by (simp add: active_variation_params_empty)
  from generate_char_id [OF g] c'
  show "\<exists>path t. variations c' = variations c @
      [\<lparr>image_path = path, pose = p, expression = ex, setting = st, generated_at = t\<rparr>]"
    by auto
qed

lemma create_char_id:
  assumes "new_character e d w = (c0, w0)" and "create_character e d w = (Inr c1, w1)"
  shows "char_id c1 = uuid4 e"
proof -
  obtain r c2 w2 where g: "generate_character_image e c0 None w0 = (r, c2, w2)"
    by (cases "generate_character_image e c0 None w0") auto
  from assms g obtain path where
    sv: "save_character e (c2\<lparr>base_image_path := Some path\<rparr>) w2 = (Inr c1, w1)"
    by (cases r) (auto simp: create_character_def split: if_splits)
  from save_character_Inr [OF sv] generate_char_id [OF g] have "char_id c1 = char_id c0"
    by auto
  moreover from assms(1) have "char_id c0 = uuid4 e"
    by (auto simp: new_character_def now_def Let_def)
  ultimately show ?thesis by simp
qed

lemma create_ok:
  assumes "new_character e d w = (c0, w0)" and "read_storage (storage w) = Inr cs"
    and "backend e (create_prompt c0 None) (Some (randint e)) = Returns (item # rest)"
    and "item_url item = Some u" and "u \<noteq> []" and "http_get e u = Content dat"
    and "makedirs_ok e" and "image_write e = Written" and "storage_write e = Written"
  shows "\<exists>c1 w1. create_character e d w = (Inr c1, w1)"
proof -
  from generate_ok [OF choose_seed_base assms(3-8), of w0] obtain path c2 w2 where
    pne: "path \<noteq> []" and g: "generate_character_image e c0 None w0 = (Inr path, c2, w2)"
    by blast
  from generate_keeps [OF g] new_character_keeps [OF assms(1)] assms(2)
  have "read_storage (storage w2) = Inr cs" by simp
  with assms(1,9) pne g show ?thesis
    by (simp add: create_character_def save_character_def now_def write_storage_def Let_def)
qed

lemma get_fox: "get_character (char_id fox) w_fox = Inr (Some fox)"
  by (simp add: get_character_def read_w_fox)

lemma seed_fox: "image_seed fox = Some 5"
  by (simp add: fox_def)

lemma env_ok_facts:
  "backend env_ok p s = Returns [picture]"
  "http_get env_ok u = Content [1, 2, 3]"
  "makedirs_ok env_ok" "image_write env_ok = Written" "storage_write env_ok = Written"
  "randint env_ok = 42" "uuid4 env_ok = 7"
  by (simp_all add: env_ok_def)

lemma env_echo_facts:
  "backend env_echo p s = Returns [picture\<lparr>item_seed := Some 7\<rparr>]"
  "http_get env_echo u = Content [1, 2, 3]"
  "makedirs_ok env_echo" "image_write env_echo = Written" "storage_write env_echo = Written"
  by (simp_all add: env_echo_def env_ok_def)

lemma picture_facts:
  "item_url picture = Some ''https://img/1''" "item_seed picture = None"
  "item_url (picture\<lparr>item_seed := Some 7\<rparr>) = Some ''https://img/1''"
  by (simp_all add: picture_def)

lemma active_sitting: "Some (active_variation_params (Some ''sitting'') None None) = sitting"
  by (simp add: active_variation_params_def sitting_def)

lemma active_empty_pose: "active_variation_params (Some []) None None = [(''pose'', [])]"
  by (simp add: active_variation_params_def)

lemma kit:
  "new_character env_ok cat_data w_new =
     (\<lparr>description = ''a cat'', name = Some ''Tom'', char_id = 7, created_at = 100,
       updated_at = 101, base_image_path = None, image_seed = None, variations = []\<rparr>,
      w_new\<lparr>ticks := 2\<rparr>)"
  by (simp add: new_character_def now_def env_ok_def cat_data_def w_new_def Let_def)

lemma read_w_new: "read_storage (storage w_new) = Inr []"
  by (simp add: read_storage_def w_new_def)

text \<open>
  The stored seed is not immutable: a variation whose backend response carries the seed
  7 replaces the fox's stored seed 5.
\<close>

theorem variation_overwrites_seed:
  "stored_seed (char_id fox) w_fox = Some 5 \<and>
   stored_seed (char_id fox)
     (snd (create_character_variation env_echo (char_id fox) (Some ''sitting'') None None w_fox)) =
     Some 7"
proof -
  have ne: "active_variation_params (Some ''sitting'') None None \<noteq> []"
    by (simp add: active_variation_params_def)
  from variation_ok [OF get_fox refl seed_fox ne env_echo_facts(1) picture_facts(3) _
      env_echo_facts(2-5)]
  obtain c' w' where
    v: "create_character_variation env_echo (char_id fox) (Some ''sitting'') None None w_fox = (Inr c', w')"
    by auto
  from variation_result(2,3) [OF get_fox seed_fox v]
  have "stored_seed (char_id fox) w' = Some 7"
    by (simp add: stored_seed_def seed_after_Returns [OF env_echo_facts(1)])
  moreover have "stored_seed (char_id fox) w_fox = Some 5"
    by (simp add: stored_seed_def get_fox seed_fox)
  ultimately show ?thesis by (simp add: v)
qed

theorem variation_requires_attribute_witness:
  "create_character_variation env_ok (char_id fox) None None None w_fox =
     (Inl no_attribute, w_fox) \<and>
   stored_variations (char_id fox)
     (snd (create_character_variation env_ok (char_id fox) (Some ''sitting'') None None w_fox)) =
     [(Some ''sitting'', None, None)]"
proof -
  have ne: "active_variation_params (Some ''sitting'') None None \<noteq> []"
    by (simp add: active_variation_params_def)
  from variation_ok [OF get_fox refl seed_fox ne env_ok_facts(1) picture_facts(1) _
      env_ok_facts(2-5)]
  obtain c' w' where
    v: "create_character_variation env_ok (char_id fox) (Some ''sitting'') None None w_fox = (Inr c', w')"
    by auto
  note t = variation_requires_attribute [OF get_fox, where e = env_ok and p = "Some ''sitting''"
      and ex = None and st = None and c' = c' and w' = w']
  from t v obtain path t' where
    "variations c' = variations fox @
       [\<lparr>image_path = path, pose = Some ''sitting'', expression = None, setting = None,
         generated_at = t'\<rparr>]"
    by auto
  moreover from variation_result(3) [OF get_fox seed_fox v]
  have "get_character (char_id fox) w' = Inr (Some c')" .
  ultimately have "stored_variations (char_id fox) w' = [(Some ''sitting'', None, None)]"
    by (simp add: stored_variations_def fox_def)
  with t show ?thesis by (simp add: v)
qed

text \<open>
  A request whose only attribute is the empty string is not refused: it appends a
  variation none of whose attributes is a non-empty string.
\<close>

theorem empty_pose_accepted:
  "stored_variations (char_id fox) w_fox = [] \<and>
   fst (create_character_variation env_ok (char_id fox) (Some []) None None w_fox) \<noteq>
     Inl no_attribute \<and>
   stored_variations (char_id fox)
     (snd (create_character_variation env_ok (char_id fox) (Some []) None None w_fox)) =
     [(Some [], None, None)]"
proof -
  have ne: "active_variation_params (Some []) None None \<noteq> []"
    by (simp add: active_variation_params_def)
  from variation_ok [OF get_fox refl seed_fox ne env_ok_facts(1) picture_facts(1) _
      env_ok_facts(2-5)]
  obtain c' w' where
    v: "create_character_variation env_ok (char_id fox) (Some []) None None w_fox = (Inr c', w')"
    by auto
  from variation_result(3,4) [OF get_fox seed_fox v]
  have "stored_variations (char_id fox) w' = [(Some [], None, None)]"
    by (auto simp: stored_variations_def fox_def)
  moreover have "stored_variations (char_id fox) w_fox = []"
    by (simp add: stored_variations_def get_fox) (simp add: fox_def)
  ultimately show ?thesis by (simp add: v)
qed

section \<open>The seed fallback and the call's result\<close>

lemma write_image_reference:
  assumes "makedirs_ok e" and "image_write e = Written"
  shows "fst (write_image e c vp d w) = Inr (asset_reference e c vp w)"
  using assms
  by (simp add: write_image_def now_def Let_def relpath_def path_join_def
      STATIC_FILES_DIR_def IMAGE_STORAGE_PATH_def asset_reference_def)

lemma asset_reference_cong:
  "char_id c' = char_id c \<Longrightarrow> ticks w' = ticks w \<Longrightarrow>
   asset_reference e c' vp w' = asset_reference e c vp w"
  by (simp add: asset_reference_def)

lemma process_response_reference:
  assumes "item_url item = Some u" and "u \<noteq> []" and "http_get e u = Content d"
    and "makedirs_ok e" and "image_write e = Written"
  shows "fst (process_response e c vp (item # rest) w) = Inr (asset_reference e c vp w)"
proof -
  let ?c = "case item_seed item of None \<Rightarrow> c | Some s' \<Rightarrow> c\<lparr>image_seed := Some s'\<rparr>"
  let ?w1 = "w\<lparr>downloads := downloads w @ [u]\<rparr>"
  have rr: "read_response (item # rest) c = (Inr u, ?c)"
    using assms(1,2) by (simp add: read_response_def Let_def)
  have dl: "download e u w = (Inr d, ?w1)"
    using assms(3) by (simp add: download_def Let_def)
  have same: "asset_reference e ?c vp ?w1 = asset_reference e c vp w"
    by (rule asset_reference_cong) (simp_all split: option.splits)
  from write_image_reference [OF assms(4,5), of ?c vp d ?w1] same
  have "fst (write_image e ?c vp d ?w1) = Inr (asset_reference e c vp w)" by simp
  with rr dl show ?thesis
    by (cases "write_image e ?c vp d ?w1") (simp add: process_response_def)
qed

lemma choose_seed_char_id: "choose_seed e c vp = (seed, c1) \<Longrightarrow> char_id c1 = char_id c"
  by (auto simp: choose_seed_def split: if_splits)

lemma generate_of_steps:
  "generate_character_image e c vp w =
     (case generate_steps e c vp w of
        (Inl x, c', w') \<Rightarrow> (Inl generation_failed, c', w')
      | (Inr path, c', w') \<Rightarrow> (Inr path, c', w'))"
  by (simp add: generate_character_image_def)

text \<open>
  Claim C3. When a seed is chosen, the first backend request carries it. If and only if
  the reply to it rejects the seed parameter as unsupported, exactly one further request
  is made, without the seed; no other request is made. When the deciding reply (the
  retry's after a rejection, else the first) raises, the call returns the generation
  failure. When it returns a response, the call goes on with that response: its result
  is that of processing the response, a failure there becoming the generation failure;
  and when the response carries a URL, the download delivers and the file is written,
  the call returns the reference of the written file.
\<close>

theorem seeded_request_then_fallback:
  assumes "choose_seed e c vp = (Some s, c1)"
  shows
    "(let p = create_prompt c vp;
          first = backend e p (Some s);
          w1 = w\<lparr>requests := requests w @
                 (if seed_rejected first then [(p, Some s), (p, None)] else [(p, Some s)])\<rparr>
      in requests (snd (snd (generate_character_image e c vp w))) = requests w1 \<and>
         (case (if seed_rejected first then backend e p None else first) of
            Raises x \<Rightarrow> generate_character_image e c vp w = (Inl generation_failed, c1, w1)
          | Returns response \<Rightarrow>
              generate_steps e c vp w = process_response e c1 vp response w1 \<and>
              generate_character_image e c vp w =
                (case process_response e c1 vp response w1 of
                   (Inl x, c', w') \<Rightarrow> (Inl generation_failed, c', w')
                 | (Inr path, c', w') \<Rightarrow> (Inr path, c', w')) \<and>
              (\<forall>item rest u d.
                 response = item # rest \<and> item_url item = Some u \<and> u \<noteq> [] \<and>
                 http_get e u = Content d \<and> makedirs_ok e \<and> image_write e = Written \<longrightarrow>
                 fst (generate_character_image e c vp w) = Inr (asset_reference e c vp w))))"
proof -
  let ?p = "create_prompt c vp"
  let ?w1 = "w\<lparr>requests := requests w @
      (if seed_rejected (backend e ?p (Some s)) then [(?p, Some s), (?p, None)]
       else [(?p, Some s)])\<rparr>"
  note steps = generate_steps_seeded [OF assms, of w, unfolded Let_def]
  note log = generate_requests [OF assms, of w]
  show ?thesis
  proof (cases "if seed_rejected (backend e ?p (Some s)) then backend e ?p None
                else backend e ?p (Some s)")
    case (Raises x)
    with steps log show ?thesis by (simp add: Let_def generate_character_image_def)
  next
    case (Returns response)
    with steps have g: "generate_steps e c vp w = process_response e c1 vp response ?w1"
      by simp
    have ok: "fst (generate_character_image e c vp w) = Inr (asset_reference e c vp w)"
      if "response = item # rest" "item_url item = Some u" "u \<noteq> []"
        "http_get e u = Content d" "makedirs_ok e" "image_write e = Written"
      for item rest u d
    proof -
      from process_response_reference [OF that(2-6), of c1 vp rest ?w1]
      have "fst (process_response e c1 vp response ?w1) = Inr (asset_reference e c1 vp ?w1)"
        using that(1) by simp
      moreover have "asset_reference e c1 vp ?w1 = asset_reference e c vp w"
        by (rule asset_reference_cong) (simp_all add: choose_seed_char_id [OF assms])
      ultimately have f: "fst (process_response e c1 vp response ?w1) =
          Inr (asset_reference e c vp w)" by simp
      obtain r c' w' where pr: "process_response e c1 vp response ?w1 = (r, c', w')"
        by (cases "process_response e c1 vp response ?w1") auto
      with f have "r = Inr (asset_reference e c vp w)" by simp
      with pr g show ?thesis by (simp add: generate_of_steps)
    qed
    from Returns g log ok show ?thesis
      by (simp add: Let_def generate_of_steps)
  qed
qed

lemma fox_uuid_str: "uuid_str (char_id fox) = ''123e4567-e89b-12d3-a456-426614174000''"
  by (simp add: fox_def uuid_str_def uuid_hex_def hex_digit_def upt_rec)

lemma env_old_facts:
  "http_get env_old u = Content [1, 2, 3]" "makedirs_ok env_old" "image_write env_old = Written"
  "strftime env_old t = ''20250101120000000000''"
  by (simp_all add: env_old_def env_ok_def)

lemma fox_sitting_reference:
  "asset_reference env_old fox sitting w_fox =
     ''images/123e4567-e89b-12d3-a456-426614174000/variations/123e4567-e89b-12d3-a456-426614174000_20250101120000000000.png''"
  by (simp add: asset_reference_def fox_uuid_str env_old_facts truthy_params_def sitting_def)

theorem seeded_request_then_fallback_witness:
  "requests (snd (snd (generate_character_image env_old fox sitting w_fox))) =
     [(create_prompt fox sitting, Some 5), (create_prompt fox sitting, None)] \<and>
   fst (generate_character_image env_old fox sitting w_fox) =
     Inr ''images/123e4567-e89b-12d3-a456-426614174000/variations/123e4567-e89b-12d3-a456-426614174000_20250101120000000000.png'' \<and>
   generate_steps env_old fox sitting w_fox =
     process_response env_old fox sitting [picture]
       (w_fox\<lparr>requests := [(create_prompt fox sitting, Some 5), (create_prompt fox sitting, None)]\<rparr>) \<and>
   generate_character_image env_limited fox sitting w_fox =
     (Inl generation_failed, fox, w_fox\<lparr>requests := [(create_prompt fox sitting, Some 5)]\<rparr>)"
proof -
  note old = seeded_request_then_fallback [OF choose_seed_fox, of env_old w_fox,
      unfolded Let_def seed_rejected_old [THEN eqTrueI] if_True retry_old backend_reply.case]
  have "requests (snd (snd (generate_character_image env_old fox sitting w_fox))) =
      [(create_prompt fox sitting, Some 5), (create_prompt fox sitting, None)]"
    using old [THEN conjunct1] by (simp add: requests_w_fox)
  moreover have "fst (generate_character_image env_old fox sitting w_fox) =
      Inr (asset_reference env_old fox sitting w_fox)"
    using old [THEN conjunct2, THEN conjunct2, THEN conjunct2]
    by (simp add: env_old_facts picture_facts)
  moreover have "generate_steps env_old fox sitting w_fox =
      process_response env_old fox sitting [picture]
        (w_fox\<lparr>requests := [(create_prompt fox sitting, Some 5), (create_prompt fox sitting, None)]\<rparr>)"
    using old [THEN conjunct2, THEN conjunct1] by (simp add: requests_w_fox)
  moreover have "generate_character_image env_limited fox sitting w_fox =
      (Inl generation_failed, fox, w_fox\<lparr>requests := [(create_prompt fox sitting, Some 5)]\<rparr>)"
    using seeded_request_then_fallback [OF choose_seed_fox, of env_limited w_fox]
    by (simp add: Let_def seed_rejected_limited requests_w_fox)
  ultimately show ?thesis by (simp add: fox_sitting_reference)
qed

section \<open>Deletion and the image directory\<close>

lemma delete_character_returns:
  assumes "read_storage (storage w) = Inr cs" and "map_of cs cid \<noteq> None"
    and "storage_write e = Written"
  shows "fst (delete_character e cid w) = Inr True"
  using assms by (auto simp: delete_character_def write_storage_def Let_def)

text \<open>
  Claim C4, as the code has it. For a stored identity and a storage file that can be
  written, \<open>delete_character\<close> returns \<open>True\<close> whatever \<open>rmtree\<close> does. A
  \<open>delete_character\<close> that returns \<open>True\<close> has itself dealt with the character's image
  directory: where there was one it is gone, or, when \<open>rmtree\<close> failed, holds what
  \<open>rmtree\<close> left; the directories of other characters are as before; the record is
  gone. The endpoint \<open>remove_character\<close> ends in the very state \<open>delete_character\<close>
  produced: it removes no file of its own.
\<close>

theorem delete_character_removes_assets:
  "(read_storage (storage w) = Inr cs \<and> map_of cs cid \<noteq> None \<and> storage_write e = Written \<longrightarrow>
      fst (delete_character e cid w) = Inr True) \<and>
   (delete_character e cid w = (Inr True, w') \<longrightarrow>
      images w' cid =
        (case images w cid of
           None \<Rightarrow> None
         | Some files \<Rightarrow>
             (case rmtree e of Removed \<Rightarrow> None | RemoveFailed left \<Rightarrow> Some left)) \<and>
      (\<forall>k. k \<noteq> cid \<longrightarrow> images w' k = images w k) \<and>
      get_character cid w' = Inr None \<and>
      remove_character e cid w = (Inr (), w'))"
proof (intro conjI impI)
  assume "read_storage (storage w) = Inr cs \<and> map_of cs cid \<noteq> None \<and> storage_write e = Written"
  then show "fst (delete_character e cid w) = Inr True"
    by (simp add: delete_character_returns)
next
  assume d: "delete_character e cid w = (Inr True, w')"
  from delete_character_True [OF d] obtain cs where
    w': "w' = (remove_image_directory e cid w)
                \<lparr>storage := Decoded (map (\<lambda>(k, v). Entry k v) (AList.delete cid cs))\<rparr>"
    by blast
  from read_after_delete [OF d] obtain cs' where
    r': "read_storage (storage w') = Inr (AList.delete cid cs')" by blast
  show "get_character cid w' = Inr None"
    using r' by (simp add: get_character_def delete_conv')
  show "remove_character e cid w = (Inr (), w')"
    using d by (simp add: remove_character_def)
  show "images w' cid =
      (case images w cid of
         None \<Rightarrow> None
       | Some files \<Rightarrow>
           (case rmtree e of Removed \<Rightarrow> None | RemoveFailed left \<Rightarrow> Some left))"
    using w' by (simp add: images_remove_image_directory)
  show "\<forall>k. k \<noteq> cid \<longrightarrow> images w' k = images w k"
    using w' by (simp add: images_remove_image_directory)
qed

lemma fox_stored: "map_of [(char_id fox, fox)] (char_id fox) \<noteq> None"
  by simp

lemma env_stuck_facts:
  "storage_write env_stuck = Written" "rmtree env_stuck = RemoveFailed [(''left.png'', [])]"
  by (simp_all add: env_stuck_def env_ok_def)

lemma images_w_fox: "images w_fox (char_id fox) = Some [(''base.png'', [])]"
  by (simp add: w_fox_def)

theorem delete_character_removes_assets_witness:
  "fst (delete_character env_stuck (char_id fox) w_fox) = Inr True \<and>
   images (snd (delete_character env_stuck (char_id fox) w_fox)) (char_id fox) =
     Some [(''left.png'', [])] \<and>
   get_character (char_id fox) (snd (delete_character env_stuck (char_id fox) w_fox)) = Inr None \<and>
   remove_character env_stuck (char_id fox) w_fox =
     (Inr (), snd (delete_character env_stuck (char_id fox) w_fox)) \<and>
   fst (delete_character env_ok (char_id fox) w_fox) = Inr True \<and>
   images (snd (delete_character env_ok (char_id fox) w_fox)) (char_id fox) = None \<and>
   images (snd (delete_character env_ok (char_id fox) w_fox)) 9 = images w_fox 9"
proof -
  have t: "fst (delete_character env_stuck (char_id fox) w_fox) = Inr True"
    using delete_character_removes_assets [where w = w_fox and cs = "[(char_id fox, fox)]"
        and cid = "char_id fox" and e = env_stuck, THEN conjunct1]
    by (simp add: read_w_fox env_stuck_facts)
  then have d: "delete_character env_stuck (char_id fox) w_fox =
      (Inr True, snd (delete_character env_stuck (char_id fox) w_fox))"
    by (simp add: prod_eq_iff)
  from delete_character_removes_assets [where w = w_fox and cid = "char_id fox" and e = env_stuck
      and w' = "snd (delete_character env_stuck (char_id fox) w_fox)", THEN conjunct2] d
  have "images (snd (delete_character env_stuck (char_id fox) w_fox)) (char_id fox) =
        Some [(''left.png'', [])] \<and>
      get_character (char_id fox) (snd (delete_character env_stuck (char_id fox) w_fox)) = Inr None \<and>
      remove_character env_stuck (char_id fox) w_fox =
        (Inr (), snd (delete_character env_stuck (char_id fox) w_fox))"
    by (simp add: images_w_fox env_stuck_facts)
  moreover
  from delete_character_removes_assets [where w = w_fox and cid = "char_id fox" and e = env_ok
      and w' = "snd (delete_character env_ok (char_id fox) w_fox)", THEN conjunct2]
  have "images (snd (delete_character env_ok (char_id fox) w_fox)) (char_id fox) = None \<and>
      images (snd (delete_character env_ok (char_id fox) w_fox)) 9 = images w_fox 9"
    by (simp add: delete_fox fox_is_not_9)
  ultimately show ?thesis using t by (simp add: delete_fox)
qed

lemma update_character_effect:
  "update_character e c w = (r, w') \<Longrightarrow>
   requests w' = requests w \<and>
   (case r of
      Inl x \<Rightarrow> storage w' = storage w \<or> (x = storage_failed \<and> storage w' = Undecodable)
    | Inr None \<Rightarrow> storage w' = storage w
    | Inr (Some c') \<Rightarrow> True)"
  by (auto simp: update_character_def now_def Let_def write_storage_def storage_failed_def
      split: sum.splits prod.splits if_splits write_outcome.splits option.splits)

lemma variation_outcome:
  assumes "get_character cid w = Inr (Some c)" and "image_seed c = Some s"
    and "active_variation_params p ex st \<noteq> []"
    and "create_character_variation e cid p ex st w = (r, w')"
  shows "requests w' = requests w @
           (if seed_rejected (backend e (create_prompt c (Some (active_variation_params p ex st))) (Some s))
            then [(create_prompt c (Some (active_variation_params p ex st)), Some s),
                  (create_prompt c (Some (active_variation_params p ex st)), None)]
            else [(create_prompt c (Some (active_variation_params p ex st)), Some s)])"
    and "r = Inl x \<Longrightarrow> storage w' = storage w \<or> (x = storage_failed \<and> storage w' = Undecodable)"
proof -
  let ?active = "active_variation_params p ex st"
  let ?P = "create_prompt c (Some ?active)"
  let ?log = "requests w @
      (if seed_rejected (backend e ?P (Some s)) then [(?P, Some s), (?P, None)]
       else [(?P, Some s)])"
  obtain r1 c1 w1 where gen: "generate_character_image e c (Some ?active) w = (r1, c1, w1)"
    by (cases "generate_character_image e c (Some ?active) w") auto
  have cs: "choose_seed e c (Some ?active) = (Some s, c)"
    using assms(2,3) by (simp add: choose_seed_variation truthy_params_def)
  from generate_requests [OF cs, of w] gen have rq1: "requests w1 = ?log" by simp
  from generate_keeps [OF gen] have st1: "storage w1 = storage w" .
  have "requests w' = ?log \<and>
      (r = Inl x \<longrightarrow> storage w' = storage w \<or> (x = storage_failed \<and> storage w' = Undecodable))"
  proof (cases r1)
    case (Inl y)
    with assms(1,3,4) gen have "w' = w1"
      by (simp add: create_character_variation_def Let_def)
    with rq1 st1 show ?thesis by simp
  next
    case (Inr path)
    show ?thesis
    proof (cases "path = []")
      case True
      with Inr assms(1,3,4) gen have "w' = w1"
        by (simp add: create_character_variation_def Let_def)
      with rq1 st1 show ?thesis by simp
    next
      case False
      let ?w2 = "snd (now e w1)"
      let ?c2 = "c1\<lparr>variations := variations c1 @
          [\<lparr>image_path = path, pose = map_of ?active ''pose'',
            expression = map_of ?active ''expression'',
            setting = map_of ?active ''setting'', generated_at = clock e (ticks w1)\<rparr>]\<rparr>"
      obtain ru w3 where u: "update_character e ?c2 ?w2 = (ru, w3)"
        by (cases "update_character e ?c2 ?w2") auto
      from False Inr assms(1,3,4) gen u have w': "w' = w3" and
        r: "r = (case ru of Inl x \<Rightarrow> Inl x
                 | Inr None \<Rightarrow> Inl (HTTPException 404 ''Character not found during update process.'')
                 | Inr (Some c') \<Rightarrow> Inr c')"
        by (auto simp: create_character_variation_def Let_def now_def
            split: sum.splits option.splits)
      from update_character_effect [OF u] have
        rq3: "requests w3 = requests w1" and
        st3: "case ru of
                Inl x \<Rightarrow> storage w3 = storage w1 \<or> (x = storage_failed \<and> storage w3 = Undecodable)
              | Inr None \<Rightarrow> storage w3 = storage w1
              | Inr (Some c') \<Rightarrow> True"
        by (auto simp: now_def split: sum.splits option.splits)
      from rq3 rq1 w' have "requests w' = ?log" by simp
      moreover have "r = Inl x \<longrightarrow>
          storage w' = storage w \<or> (x = storage_failed \<and> storage w' = Undecodable)"
        using r st3 st1 w' by (auto split: sum.splits option.splits)
      ultimately show ?thesis by simp
    qed
  qed
  then show "requests w' = ?log"
    and "r = Inl x \<Longrightarrow> storage w' = storage w \<or> (x = storage_failed \<and> storage w' = Undecodable)"
    by simp_all
qed

section \<open>The seed across generations, and a storage file that is not text\<close>

lemma generate_download_fails:
  assumes "choose_seed e c vp = (Some s, c1)"
    and "backend e (create_prompt c vp) (Some s) = Returns (item # rest)"
    and "item_url item = Some u" and "u \<noteq> []" and "http_get e u = FetchRaises y"
  shows "fst (generate_character_image e c vp w) = Inl generation_failed"
proof -
  let ?w1 = "w\<lparr>requests := requests w @ [(create_prompt c vp, Some s)]\<rparr>"
  have "\<not> seed_rejected (backend e (create_prompt c vp) (Some s))"
    using assms(2) by (simp add: seed_rejected_def)
  with generate_steps_seeded [OF assms(1), of w] assms(2)
  have g: "generate_steps e c vp w = process_response e c1 vp (item # rest) ?w1"
    by (simp add: Let_def)
  have rr: "read_response (item # rest) c1 =
      (Inr u, case item_seed item of None \<Rightarrow> c1 | Some s' \<Rightarrow> c1\<lparr>image_seed := Some s'\<rparr>)"
    using assms(3,4) by (simp add: read_response_def Let_def)
  from download_failure [OF assms(5), of ?w1] obtain z where "fst (download e u ?w1) = Inl z"
    by blast
  from process_response_failure(2) [OF rr this, of vp] g
  obtain z' where "fst (generate_steps e c vp w) = Inl z'" by auto
  then show ?thesis
    by (cases "generate_steps e c vp w") (simp add: generate_of_steps)
qed

lemma variation_generation_fails:
  assumes "get_character cid w = Inr (Some c)" and "active_variation_params p ex st \<noteq> []"
    and "fst (generate_character_image e c (Some (active_variation_params p ex st)) w) = Inl x"
  shows "fst (create_character_variation e cid p ex st w) = Inl x"
  using assms
  by (cases "generate_character_image e c (Some (active_variation_params p ex st)) w")
     (simp add: create_character_variation_def Let_def)

lemma storage_stored_seed: "storage w' = storage w \<Longrightarrow> stored_seed k w' = stored_seed k w"
  by (simp add: stored_seed_def get_character_def)

text \<open>
  Claim C1, as the code has it. A created character carries a seed: the random seed of
  the base image, or the seed of the backend's response when the response carries one;
  that is the seed stored. A variation generation for a stored character with seed \<open>s\<close>
  sends \<open>s\<close> with its first backend request (a retry after a rejected seed parameter
  sends none), whether it succeeds or fails. After a variation that succeeds the stored
  seed is the seed of the backend's response when the response carries one, else \<open>s\<close>.
  After a variation that fails the storage file is as it was and the stored seed is
  \<open>s\<close>, unless the failure is an interrupted write of the storage file, which leaves
  the file undecodable.
\<close>

theorem seed_lifecycle:
  "(new_character e d w = (cn, wn) \<and> create_character e d w = (Inr cb, wb) \<longrightarrow>
      image_seed cb = seed_after e (create_prompt cn None) (randint e) wn \<and>
      stored_seed (char_id cb) wb = image_seed cb) \<and>
   (get_character cid w = Inr (Some c) \<and> image_seed c = Some s \<and>
    create_character_variation e cid p ex st w = (Inr c', w') \<longrightarrow>
      (let prompt = create_prompt c (Some (active_variation_params p ex st)) in
         requests w' = requests w @
           (if seed_rejected (backend e prompt (Some s)) then [(prompt, Some s), (prompt, None)]
            else [(prompt, Some s)]) \<and>
         image_seed c' = seed_after e prompt s w \<and>
         stored_seed (char_id c) w' = image_seed c')) \<and>
   (get_character cid w = Inr (Some c) \<and> image_seed c = Some s \<and>
    active_variation_params p ex st \<noteq> [] \<and>
    create_character_variation e cid p ex st w = (Inl x, w') \<longrightarrow>
      (let prompt = create_prompt c (Some (active_variation_params p ex st)) in
         requests w' = requests w @
           (if seed_rejected (backend e prompt (Some s)) then [(prompt, Some s), (prompt, None)]
            else [(prompt, Some s)]) \<and>
         ((storage w' = storage w \<and> stored_seed cid w' = Some s) \<or>
          (x = storage_failed \<and> storage w' = Undecodable))))"
proof (intro conjI impI)
  assume a: "new_character e d w = (cn, wn) \<and> create_character e d w = (Inr cb, wb)"
  then show "image_seed cb = seed_after e (create_prompt cn None) (randint e) wn"
    using create_result(1) by blast
  from a have "get_character (char_id cb) wb = Inr (Some cb)"
    using create_result(2) by blast
  then show "stored_seed (char_id cb) wb = image_seed cb" by (simp add: stored_seed_def)
next
  assume a: "get_character cid w = Inr (Some c) \<and> image_seed c = Some s \<and>
    create_character_variation e cid p ex st w = (Inr c', w')"
  then have 1: "get_character cid w = Inr (Some c)" and 2: "image_seed c = Some s"
    and 3: "create_character_variation e cid p ex st w = (Inr c', w')" by simp_all
  from variation_result(1-3) [OF 1 2 3]
  show "let prompt = create_prompt c (Some (active_variation_params p ex st)) in
         requests w' = requests w @
           (if seed_rejected (backend e prompt (Some s)) then [(prompt, Some s), (prompt, None)]
            else [(prompt, Some s)]) \<and>
         image_seed c' = seed_after e prompt s w \<and>
         stored_seed (char_id c) w' = image_seed c'"
    by (simp add: Let_def stored_seed_def)
next
  assume a: "get_character cid w = Inr (Some c) \<and> image_seed c = Some s \<and>
    active_variation_params p ex st \<noteq> [] \<and>
    create_character_variation e cid p ex st w = (Inl x, w')"
  then have 1: "get_character cid w = Inr (Some c)" and 2: "image_seed c = Some s"
    and 3: "active_variation_params p ex st \<noteq> []"
    and 4: "create_character_variation e cid p ex st w = (Inl x, w')" by simp_all
  have before: "stored_seed cid w = Some s"
    using 1 2 by (simp add: stored_seed_def)
  from variation_outcome(2) [OF 1 2 3 4 refl]
  have "(storage w' = storage w \<and> stored_seed cid w' = Some s) \<or>
      (x = storage_failed \<and> storage w' = Undecodable)"
    using before by (auto dest: storage_stored_seed [where k = cid])
  with variation_outcome(1) [OF 1 2 3 4]
  show "let prompt = create_prompt c (Some (active_variation_params p ex st)) in
         requests w' = requests w @
           (if seed_rejected (backend e prompt (Some s)) then [(prompt, Some s), (prompt, None)]
            else [(prompt, Some s)]) \<and>
         ((storage w' = storage w \<and> stored_seed cid w' = Some s) \<or>
          (x = storage_failed \<and> storage w' = Undecodable))"
    by (simp add: Let_def)
qed

lemma env_echo_offline_facts:
  "backend env_echo_offline p s = Returns [picture\<lparr>item_seed := Some 7\<rparr>]"
  "http_get env_echo_offline u = FetchRaises RequestError"
  by (simp_all add: env_echo_offline_def env_echo_def env_ok_def)

theorem seed_lifecycle_witness:
  "stored_seed (char_id fox) w_fox = Some 5 \<and>
   stored_seed (char_id fox)
     (snd (create_character_variation env_ok (char_id fox) (Some ''sitting'') None None w_fox)) =
     Some 5 \<and>
   requests (snd (create_character_variation env_ok (char_id fox) (Some ''sitting'') None None w_fox)) =
     [(create_prompt fox sitting, Some 5)] \<and>
   stored_seed 7 (snd (create_character env_ok cat_data w_new)) = Some 42 \<and>
   fst (create_character_variation env_echo_offline (char_id fox) (Some ''sitting'') None None w_fox) =
     Inl generation_failed \<and>
   requests (snd (create_character_variation env_echo_offline (char_id fox) (Some ''sitting'')
     None None w_fox)) = [(create_prompt fox sitting, Some 5)] \<and>
   stored_seed (char_id fox)
     (snd (create_character_variation env_echo_offline (char_id fox) (Some ''sitting'') None None
        w_fox)) = Some 5"
proof -
  have ne: "active_variation_params (Some ''sitting'') None None \<noteq> []"
    by (simp add: active_variation_params_def)
  from variation_ok [OF get_fox refl seed_fox ne env_ok_facts(1) picture_facts(1) _
      env_ok_facts(2-5)]
  obtain c' w' where
    v: "create_character_variation env_ok (char_id fox) (Some ''sitting'') None None w_fox = (Inr c', w')"
    by auto
  from create_ok [OF kit read_w_new env_ok_facts(1) picture_facts(1) _ env_ok_facts(2-5)]
  obtain c1 w1 where c: "create_character env_ok cat_data w_new = (Inr c1, w1)"
    by auto
  have not_rejected: "\<not> seed_rejected (Returns r)" for r
    by (simp add: seed_rejected_def)
  from seed_lifecycle [where e = env_ok and cid = "char_id fox" and w = w_fox and c = fox
      and s = 5 and p = "Some ''sitting''" and ex = None and st = None and c' = c' and w' = w',
      THEN conjunct2, THEN conjunct1] get_fox seed_fox v
  have "requests w' = [(create_prompt fox sitting, Some 5)] \<and>
      stored_seed (char_id fox) w' = Some 5"
    by (simp add: Let_def active_sitting env_ok_facts not_rejected requests_w_fox
        seed_after_Returns [OF env_ok_facts(1)] picture_facts)
  moreover
  from seed_lifecycle [where e = env_ok and d = cat_data and w = w_new and cb = c1 and wb = w1,
      THEN conjunct1] kit c
  have "stored_seed (char_id c1) w1 = Some 42"
    by (simp add: env_ok_facts seed_after_Returns [OF env_ok_facts(1)] picture_facts)
  moreover have "char_id c1 = 7"
    using create_char_id [OF kit c] by (simp add: env_ok_facts)
  moreover have "stored_seed (char_id fox) w_fox = Some 5"
    by (simp add: stored_seed_def get_fox seed_fox)
  moreover
  have cs: "choose_seed env_echo_offline fox (Some (active_variation_params (Some ''sitting'') None None)) =
      (Some 5, fox)"
    by (simp add: active_sitting choose_seed_fox)
  have "fst (generate_character_image env_echo_offline fox
      (Some (active_variation_params (Some ''sitting'') None None)) w_fox) = Inl generation_failed"
    by (rule generate_download_fails [OF cs env_echo_offline_facts(1) picture_facts(3) _
          env_echo_offline_facts(2)]) simp
  from variation_generation_fails [OF get_fox ne this]
  have ff: "fst (create_character_variation env_echo_offline (char_id fox) (Some ''sitting'') None
      None w_fox) = Inl generation_failed" .
  then have f: "create_character_variation env_echo_offline (char_id fox) (Some ''sitting'') None None w_fox =
      (Inl generation_failed,
       snd (create_character_variation env_echo_offline (char_id fox) (Some ''sitting'') None None w_fox))"
    by (simp add: prod_eq_iff)
  have differ: "generation_failed \<noteq> storage_failed"
    by (simp add: generation_failed_def storage_failed_def)
  from seed_lifecycle [where e = env_echo_offline and cid = "char_id fox" and w = w_fox and c = fox
      and s = 5 and p = "Some ''sitting''" and ex = None and st = None and x = generation_failed
      and w' = "snd (create_character_variation env_echo_offline (char_id fox) (Some ''sitting'')
        None None w_fox)", THEN conjunct2, THEN conjunct2] get_fox seed_fox ne f
  have "requests (snd (create_character_variation env_echo_offline (char_id fox) (Some ''sitting'')
        None None w_fox)) = [(create_prompt fox sitting, Some 5)] \<and>
      stored_seed (char_id fox)
        (snd (create_character_variation env_echo_offline (char_id fox) (Some ''sitting'') None None
           w_fox)) = Some 5"
    by (simp add: Let_def active_sitting env_echo_offline_facts not_rejected requests_w_fox differ)
  ultimately show ?thesis using ff by (simp add: v c)
qed

text \<open>
  Claim C10 at a storage file whose bytes are not UTF-8: \<open>json.load\<close> raises
  \<open>UnicodeDecodeError\<close>, which the handler of \<open>_read_storage\<close> does not catch, so
  \<open>get_character\<close>, \<open>get_all_characters\<close>, \<open>save_character\<close> and \<open>delete_character\<close>
  raise it, where the claim and the docstring of \<open>_read_storage\<close> have the empty
  collection.
\<close>

theorem storage_not_text_raises:
  "storage w_bad = NotText \<and>
   get_character (char_id fox) w_bad = Inl UnicodeDecodeError \<and>
   get_all_characters w_bad = Inl UnicodeDecodeError \<and>
   save_character env_ok fox w_bad = (Inl UnicodeDecodeError, w_bad) \<and>
   delete_character env_ok (char_id fox) w_bad = (Inl UnicodeDecodeError, w_bad)"
  by (simp add: w_bad_def get_character_def get_all_characters_def save_character_def
      delete_character_def read_storage_def)

end
